(* ===== verification/Prelude.thy ===== *)
theory Prelude
  imports Main
begin

text \<open>
  Shared vocabulary of the cAdvisor client development: the Python exceptions the
  client can raise (one datatype, so that every raise of the source is an \<open>Inl\<close>
  of a sum), the propagation of an exception through a sequence of Python
  statements (\<open>py_bind\<close>), the type names of the model, and the generic lemmas on
  sums and strings that the component theories share.
\<close>

named_theorems format_simps \<open>equations of the string-formatting model\<close>
named_theorems request_defs \<open>definitions of the client operations, unfolded together\<close>

section \<open>Python exceptions as values\<close>

text \<open>
  One constructor per exception class that can reach the caller of
  \<^verbatim>\<open>src/cadvisor_client.py\<close>; each carries its message, except the
  decoding error of \<^verbatim>\<open>resp.json()\<close>, whose message (which names the position
  of the fault) is not modelled. \<open>ConnectionError\<close> stands for every exception
  \<^verbatim>\<open>requests.get\<close> raises: besides a failed connection, the library's
  \<^verbatim>\<open>InvalidSchema\<close>, \<^verbatim>\<open>MissingSchema\<close>, \<^verbatim>\<open>InvalidURL\<close> and
  \<^verbatim>\<open>TooManyRedirects\<close>, all subclasses of \<^verbatim>\<open>RequestException\<close>, are folded
  into it. \<open>Unmodelled\<close> stands for
  a behaviour of a Python built-in outside the fragment the source uses (for
  example a width flag in a format); no operation of the source reaches it.
\<close>

datatype py_error =
    KeyError string
  | ValueError string
  | TypeError string
  | AttributeError string
  | CadvisorAPIFailedException string
  | ConnectionError string
  | JSONDecodeError
  | Unmodelled string

type_synonym 'a py_result = "py_error + 'a"
type_synonym py_dict = "string \<rightharpoonup> string"
type_synonym url = string

text \<open>Sequencing of two Python statements: an exception of the first skips the second.\<close>

definition py_bind :: "'a py_result \<Rightarrow> ('a \<Rightarrow> 'b py_result) \<Rightarrow> 'b py_result" where
  "py_bind r f = (case r of Inl e \<Rightarrow> Inl e | Inr a \<Rightarrow> f a)"

text \<open>Prefixing the string a computation returns, keeping its exception.\<close>

definition prefix_result :: "string \<Rightarrow> string py_result \<Rightarrow> string py_result" where
  "prefix_result p r = map_sum id ((@) p) r"

text \<open>A string with no percent sign is left alone by every format operation.\<close>

abbreviation no_pct :: "string \<Rightarrow> bool" where
  "no_pct s \<equiv> CHR ''%'' \<notin> set s"

section \<open>Lemmas on sums\<close>

lemma py_bind_Inl [simp]: "py_bind (Inl e) f = Inl e"
  by (simp add: py_bind_def)

lemma py_bind_Inr [simp]: "py_bind (Inr a) f = f a"
  by (simp add: py_bind_def)

lemma py_bind_eq_Inr_conv:
  "py_bind r f = Inr b \<longleftrightarrow> (\<exists>a. r = Inr a \<and> f a = Inr b)"
  by (cases r) simp_all

lemma py_bind_eq_Inl_conv:
  "py_bind r f = Inl e \<longleftrightarrow> r = Inl e \<or> (\<exists>a. r = Inr a \<and> f a = Inl e)"
  by (cases r) simp_all

lemma map_sum_eq_Inr_conv: "map_sum f g r = Inr b \<longleftrightarrow> (\<exists>a. r = Inr a \<and> b = g a)"
  by (cases r) auto

declare isl_map_sum [simp]

lemma prefix_result_Inl [simp]: "prefix_result p (Inl e) = Inl e"
  by (simp add: prefix_result_def)

lemma prefix_result_Inr [simp]: "prefix_result p (Inr s) = Inr (p @ s)"
  by (simp add: prefix_result_def)

lemma prefix_result_Nil [simp]: "prefix_result [] r = r"
  by (cases r) simp_all

lemma prefix_result_append [simp]:
  "prefix_result p (prefix_result q r) = prefix_result (p @ q) r"
  by (cases r) simp_all

lemma prefix_result_isl [simp]: "isl (prefix_result p r) = isl r"
  by (cases r) simp_all

end
