(* ===== verification/FormatKey.thy ===== *)
theory FormatKey
  imports Prelude
begin

text \<open>
  The mapping key of a Python format directive \<open>%(key)s\<close>. After \<open>%(\<close>,
  CPython's formatter (\<^verbatim>\<open>unicode_format_arg_parse\<close>) counts parentheses: the key
  ends at the \<open>)\<close> that closes the first \<open>(\<close>, so a key may itself hold balanced
  parentheses. \<open>scan_key\<close> is that loop; \<open>balanced\<close> says which keys it reads
  back whole. The lemmas: the rest after a key is shorter than the input (the
  termination argument of the formatter), and scanning inverts writing a balanced
  key followed by \<open>)\<close>.
\<close>

text \<open>
  \<open>d\<close> counts the open parentheses beyond the first; \<open>None\<close> is an unterminated
  key (\<open>ValueError: incomplete format key\<close>).
\<close>

fun scan_key :: "nat \<Rightarrow> string \<Rightarrow> (string \<times> string) option" where
  "scan_key d [] = None"
| "scan_key d (c # cs) =
     (if c = CHR '')'' then
        (case d of
           0 \<Rightarrow> Some ([], cs)
         | Suc d' \<Rightarrow> map_option (apfst ((#) c)) (scan_key d' cs))
      else map_option (apfst ((#) c)) (scan_key (if c = CHR ''('' then Suc d else d) cs))"

text \<open>
  \<open>balanced d k\<close>: read from depth \<open>d\<close>, the key never closes more parentheses
  than it opened and ends at depth 0.
\<close>

fun balanced :: "nat \<Rightarrow> string \<Rightarrow> bool" where
  "balanced d [] = (d = 0)"
| "balanced d (c # cs) =
     (if c = CHR '')'' then (case d of 0 \<Rightarrow> False | Suc d' \<Rightarrow> balanced d' cs)
      else balanced (if c = CHR ''('' then Suc d else d) cs)"

lemma scan_key_length:
  "scan_key d cs = Some (k, r) \<Longrightarrow> length r < length cs"
proof (induction d cs arbitrary: k rule: scan_key.induct)
  case (1 d)
  then show ?case by simp
next
  case (2 d c cs)
  then show ?case
    by (fastforce split: if_splits nat.splits)
qed

lemma scan_key_balanced:
  "balanced d k \<Longrightarrow> scan_key d (k @ CHR '')'' # r) = Some (k, r)"
proof (induction k arbitrary: d)
  case Nil
  then show ?case by simp
next
  case (Cons c k)
  then show ?case by (auto split: if_splits nat.splits)
qed

lemma scan_key_Some:
  "scan_key d s = Some (k, r) \<Longrightarrow> s = k @ CHR '')'' # r \<and> balanced d k"
proof (induction d s arbitrary: k rule: scan_key.induct)
  case (1 d)
  then show ?case by simp
next
  case (2 d c cs)
  then show ?case by (auto split: if_splits nat.splits)
qed

lemma balanced_no_parens:
  "CHR ''('' \<notin> set k \<Longrightarrow> CHR '')'' \<notin> set k \<Longrightarrow> balanced 0 k"
  by (induction k) auto

end
