(* ===== verification/PyFormat.thy ===== *)
theory PyFormat
  imports FormatKey
begin

text \<open>
  Python's \<open>%\<close> operator on a string and a dictionary, in the fragment
  \<^verbatim>\<open>src/cadvisor_client.py\<close> uses: literal text, \<open>%%\<close> and \<open>%(key)s\<close>. The
  source applies it three times: to a sub-client's path template
  (\<^verbatim>\<open>_BaseClient.request\<close>, line 41), to the endpoint template
  (\<^verbatim>\<open>CadvisorClient.__init__\<close>, line 75) and to an exception object
  (\<^verbatim>\<open>_http_request\<close>, line 85). \<open>py_format\<close> follows CPython's one-pass
  formatter (\<^verbatim>\<open>PyUnicode_Format\<close>): a key is scanned up to its matching
  parenthesis, looked up (a missing key raises \<open>KeyError\<close> before the conversion
  character is read), and the value is copied without being scanned again.
  \<open>py_mod\<close> dispatches the operator on the type of its left operand, and
  \<open>py_raise\<close> is the \<^verbatim>\<open>raise\<close> statement applied to the value of an expression.
  The lemmas compute the formatter on literal text and on one \<open>%(key)s\<close>
  directive, which is all the templates of the source hold.
\<close>

section \<open>The formatter\<close>

function py_format :: "string \<Rightarrow> py_dict \<Rightarrow> string py_result" where
  "py_format [] m = Inr []"
| "py_format (c # cs) m =
     (if c \<noteq> CHR ''%'' then prefix_result [c] (py_format cs m)
      else
        (case cs of
           [] \<Rightarrow> Inl (ValueError ''incomplete format'')
         | d # ds \<Rightarrow>
             if d = CHR ''%'' then prefix_result ''%'' (py_format ds m)
             else if d = CHR ''('' then
               (case scan_key 0 ds of
                  None \<Rightarrow> Inl (ValueError ''incomplete format key'')
                | Some (k, rest) \<Rightarrow>
                    (case m k of
                       None \<Rightarrow> Inl (KeyError k)
                     | Some v \<Rightarrow>
                         (case rest of
                            [] \<Rightarrow> Inl (ValueError ''incomplete format'')
                          | e # es \<Rightarrow>
                              if e = CHR ''s'' then prefix_result v (py_format es m)
                              else Inl (Unmodelled ''conversion other than s''))))
             else Inl (Unmodelled ''conversion without a mapping key'')))"
  by pat_completeness auto
termination
  by (relation "measure (\<lambda>(s, m). length s)") (auto dest: scan_key_length)

section \<open>Python's \<open>%\<close> operator and the raise statement\<close>

text \<open>
  A Python value the operator can meet in the source: a string, or an exception
  instance (its class and message are a \<open>py_error\<close>). An exception class defines
  no \<open>__mod__\<close>, so \<open>exc % dict\<close> raises \<open>TypeError\<close>.
\<close>

datatype py_obj = PyStr string | PyExc py_error

fun py_type_name :: "py_error \<Rightarrow> string" where
  "py_type_name (KeyError _) = ''KeyError''"
| "py_type_name (ValueError _) = ''ValueError''"
| "py_type_name (TypeError _) = ''TypeError''"
| "py_type_name (AttributeError _) = ''AttributeError''"
| "py_type_name (CadvisorAPIFailedException _) = ''CadvisorAPIFailedException''"
| "py_type_name (ConnectionError _) = ''ConnectionError''"
| "py_type_name JSONDecodeError = ''JSONDecodeError''"
| "py_type_name (Unmodelled _) = ''object''"

fun py_mod :: "py_obj \<Rightarrow> py_dict \<Rightarrow> py_obj py_result" where
  "py_mod (PyStr s) m = map_sum id PyStr (py_format s m)"
| "py_mod (PyExc e) m =
     Inl (TypeError (''unsupported operand type(s) for %: '' @ CHR 0x27 # py_type_name e @
       CHR 0x27 # '' and '' @ CHR 0x27 # ''dict'' @ [CHR 0x27]))"

text \<open>
  \<^verbatim>\<open>raise expr\<close>: an exception while evaluating \<open>expr\<close> propagates; an
  exception instance is raised; anything else is a \<open>TypeError\<close>.
\<close>

fun py_raise :: "py_obj py_result \<Rightarrow> py_error" where
  "py_raise (Inl e) = e"
| "py_raise (Inr (PyExc e)) = e"
| "py_raise (Inr (PyStr s)) = TypeError ''exceptions must derive from BaseException''"

section \<open>The formatter on literal text and on one directive\<close>

lemma py_format_no_pct [format_simps]: "no_pct s \<Longrightarrow> py_format s m = Inr s"
  by (induction s) auto

lemma py_format_append_lit [format_simps]:
  "no_pct p \<Longrightarrow> py_format (p @ s) m = prefix_result p (py_format s m)"
  by (induction p) auto

text \<open>
  One \<open>%(k)s\<close> directive after literal text: the value is looked up once and
  copied as it is; the rest of the template is formatted after it.
\<close>

lemma py_format_subst [format_simps]:
  assumes "no_pct p" and "balanced 0 k"
  shows "py_format (p @ ''%('' @ k @ '')s'' @ q) m =
    (case m k of None \<Rightarrow> Inl (KeyError k) | Some v \<Rightarrow> prefix_result (p @ v) (py_format q m))"
proof -
  have "scan_key 0 (k @ CHR '')'' # CHR ''s'' # q) = Some (k, CHR ''s'' # q)"
    using assms(2) by (rule scan_key_balanced)
  then show ?thesis
    using assms(1) by (simp add: py_format_append_lit split: option.split)
qed

end
