(* ===== verification/Transport.thy ===== *)
theory Transport
  imports PyFormat
begin

text \<open>
  The HTTP transport of \<^verbatim>\<open>src/cadvisor_client.py\<close>:
  \<^verbatim>\<open>CadvisorClient._http_request\<close> (lines 82--87). The network is explicit state:
  \<open>sent\<close> is the list of URLs requested so far, oldest first, and \<open>respond\<close>
  is the server, which may answer differently as the history grows. \<^verbatim>\<open>requests.get\<close>
  appends the URL to the log and returns the server's answer or a connection
  failure; the code passes no timeout, so against a server that accepts the
  request and never answers it never returns. A request's value is therefore an
  option, \<open>None\<close> being a call that does not return, as in a big-step
  semantics where a diverging program has no result. The body is decoded by a decoder given as a parameter (\<^verbatim>\<open>resp.json()\<close>
  of the requests library); \<open>None\<close> is a body that is not JSON. The lemmas give
  the outcome of a request on every branch of the code, the range of statuses the
  check \<^verbatim>\<open>resp.status_code // 100 != 2\<close> accepts, the network frame (exactly
  one URL is logged per request), and the comparison with the contract of the
  spec (section 4.3): on a non-2xx answer the code raises \<open>TypeError\<close>, not the
  typed failure, because line 85 applies \<open>%\<close> to the exception object.
\<close>

section \<open>Responses and the network\<close>

record response =
  status_code :: int
  reason :: string
  content :: string

text \<open>
  What the server does with one request: a reply, a failure, or nothing at all (it
  accepts the request and never answers). \<open>NetworkFailure\<close> is every exception
  of \<^verbatim>\<open>requests.get\<close>: a refused connection, and also a malformed URL
  (\<^verbatim>\<open>InvalidSchema\<close>, \<^verbatim>\<open>MissingSchema\<close>, \<^verbatim>\<open>InvalidURL\<close>) or a
  redirect loop (\<^verbatim>\<open>TooManyRedirects\<close>), which the library raises before or
  without reaching a server; the model folds them into one outcome that the
  server function chooses, and logs the URL in \<open>sent\<close> on each of them.
\<close>

datatype http_outcome = Reply response | NetworkFailure string | NoAnswer

record net =
  sent :: "url list"
  respond :: "url list \<Rightarrow> url \<Rightarrow> http_outcome"

type_synonym 'j decoder = "string \<Rightarrow> 'j option"

text \<open>\<^verbatim>\<open>requests.get(url)\<close>: one request, logged whether or not it is answered.\<close>

definition requests_get :: "url \<Rightarrow> net \<Rightarrow> http_outcome \<times> net" where
  "requests_get u n = (respond n (sent n) u, n\<lparr>sent := sent n @ [u]\<rparr>)"

section \<open>The request\<close>

text \<open>The status test of line 84, negated: \<^verbatim>\<open>resp.status_code // 100 == 2\<close>.\<close>

definition status_ok :: "int \<Rightarrow> bool" where
  "status_ok c \<longleftrightarrow> c div 100 = 2"

text \<open>
  Line 85--86: \<^verbatim>\<open>raise CadvisorAPIFailedException('%(reason)s') % {'reason': resp.reason}\<close>.
  Python builds the exception, builds the dictionary, and applies \<open>%\<close> to the
  exception; the value of that expression is what \<^verbatim>\<open>raise\<close> raises.
\<close>

text \<open>
  The exception line 85 raises, with CPython's message for \<open>%\<close> on operands
  that do not support it.
\<close>

abbreviation line85_error :: py_error where
  "line85_error \<equiv>
     TypeError (''unsupported operand type(s) for %: 'CadvisorAPIFailedException' and 'dict'' @ [CHR 0x27])"

definition api_failure :: "response \<Rightarrow> py_error" where
  "api_failure resp =
     py_raise (py_mod (PyExc (CadvisorAPIFailedException ''%(reason)s''))
                      [''reason'' \<mapsto> reason resp])"

text \<open>\<^verbatim>\<open>resp.json()\<close>: the decoded body, or the decoder's exception.\<close>

definition resp_json :: "'j decoder \<Rightarrow> response \<Rightarrow> 'j py_result" where
  "resp_json dec resp =
     (case dec (content resp) of None \<Rightarrow> Inl JSONDecodeError | Some j \<Rightarrow> Inr j)"

text \<open>
  Lines 83--87 once \<^verbatim>\<open>requests.get\<close> has the server's outcome: a connection
  failure propagates, a non-2xx reply reaches the raise of line 85, a 2xx reply is
  decoded; \<open>None\<close> when the call never returns.
\<close>

definition http_result :: "'j decoder \<Rightarrow> http_outcome \<Rightarrow> 'j py_result option" where
  "http_result dec out =
     (case out of
        NoAnswer \<Rightarrow> None
      | NetworkFailure msg \<Rightarrow> Some (Inl (ConnectionError msg))
      | Reply resp \<Rightarrow>
          Some (if \<not> status_ok (status_code resp) then Inl (api_failure resp)
                else resp_json dec resp))"

text \<open>\<^verbatim>\<open>CadvisorClient._http_request(url)\<close>, lines 82--87.\<close>

definition http_request :: "'j decoder \<Rightarrow> url \<Rightarrow> net \<Rightarrow> ('j py_result \<times> net) option" where
  "http_request dec u n =
     (let (out, n') = requests_get u n in map_option (\<lambda>r. (r, n')) (http_result dec out))"

section \<open>The contract of the spec\<close>

text \<open>
  Spec, section 4.3 and 7: a status outside [200, 299] fails with
  \<open>CadvisorAPIFailedException\<close> carrying the reason phrase; otherwise the body is
  decoded, and a body that is not JSON is a decoding error. Network failures
  propagate, and with no timeout a call to a server that never answers blocks
  (section 4.3: a documented limitation).
\<close>

definition http_contract :: "'j decoder \<Rightarrow> http_outcome \<Rightarrow> 'j py_result option" where
  "http_contract dec out =
     (case out of
        NoAnswer \<Rightarrow> None
      | NetworkFailure msg \<Rightarrow> Some (Inl (ConnectionError msg))
      | Reply resp \<Rightarrow>
          Some (if 200 \<le> status_code resp \<and> status_code resp \<le> 299 then resp_json dec resp
                else Inl (CadvisorAPIFailedException (reason resp))))"

text \<open>
  The statement line 85 means to be: format the message, then build the exception
  from it (\<^verbatim>\<open>CadvisorAPIFailedException('%(reason)s' % {'reason': resp.reason})\<close>).
\<close>

definition api_failure_intended :: "response \<Rightarrow> py_error" where
  "api_failure_intended resp =
     py_raise (py_bind (py_format ''%(reason)s'' [''reason'' \<mapsto> reason resp])
                       (\<lambda>msg. Inr (PyExc (CadvisorAPIFailedException msg))))"

section \<open>Concrete inputs for the examples\<close>

text \<open>
  A server that answers every URL with one fixed reply, and a decoder that
  accepts the body \<open>[]\<close> only.
\<close>

abbreviation reply_net :: "int \<Rightarrow> string \<Rightarrow> string \<Rightarrow> net" where
  "reply_net c r b \<equiv>
     \<lparr>sent = [], respond = (\<lambda>h u. Reply \<lparr>status_code = c, reason = r, content = b\<rparr>)\<rparr>"

abbreviation list_decoder :: "nat decoder" where
  "list_decoder \<equiv> (\<lambda>s. if s = ''[]'' then Some 0 else None)"

section \<open>Lemmas\<close>

lemma status_ok_2xx: "200 \<le> c \<Longrightarrow> c \<le> 299 \<Longrightarrow> status_ok c"
  by (auto simp: status_ok_def)

lemma api_failure_TypeError:
  "api_failure resp =
     line85_error"
  by (simp add: api_failure_def)

text \<open>The statement line 85 means to be raises the typed failure with the reason, whatever it holds.\<close>

lemma api_failure_intended_reason:
  "api_failure_intended resp = CadvisorAPIFailedException (reason resp)"
  by (simp add: api_failure_intended_def)

lemma http_request_eq:
  "http_request dec u n =
     map_option (\<lambda>r. (r, n\<lparr>sent := sent n @ [u]\<rparr>)) (http_result dec (respond n (sent n) u))"
  by (simp add: http_request_def requests_get_def)

text \<open>A request that returns has logged its URL and left the server as it was.\<close>

lemma http_request_frame:
  "http_request dec u n = Some (r, n') \<Longrightarrow> n' = n\<lparr>sent := sent n @ [u]\<rparr>"
  by (auto simp: http_request_eq)

lemma http_result_None [simp]: "http_result dec out = None \<longleftrightarrow> out = NoAnswer"
  by (simp add: http_result_def split: http_outcome.split)

lemma http_result_NoAnswer [simp]: "http_result dec NoAnswer = None"
  by simp

lemma http_request_returns:
  "(\<exists>r n'. http_request dec u n = Some (r, n')) \<longleftrightarrow> respond n (sent n) u \<noteq> NoAnswer"
  by (cases "http_result dec (respond n (sent n) u)") (auto simp: http_request_eq)

lemma http_result_not_AttributeError: "http_result dec out \<noteq> Some (Inl (AttributeError m))"
  by (simp add: http_result_def api_failure_TypeError resp_json_def
           split: http_outcome.split option.split)

lemmas http_defs = http_request_eq http_result_def

section \<open>The request on each branch, and against the contract\<close>

text \<open>
  C2: when the server answers with a status outside [200, 299], the request raises
  \<open>TypeError\<close> (the \<open>%\<close> of line 85 applied to an exception), not
  \<open>CadvisorAPIFailedException\<close>, and the URL has been requested once.
\<close>

theorem http_request_non2xx_TypeError:
  assumes "respond n (sent n) u = Reply resp"
    and "status_code resp < 200 \<or> 299 < status_code resp"
  shows "http_request dec u n = Some (Inl line85_error, n\<lparr>sent := sent n @ [u]\<rparr>)"
  using assms by (auto simp: http_defs status_ok_def api_failure_TypeError)

theorem http_request_non2xx_TypeError_witness:
  "respond (reply_net 404 ''Not Found'' '''') [] ''http://h:8080/v1.3/machine'' =
     Reply \<lparr>status_code = 404, reason = ''Not Found'', content = ''''\<rparr> \<and>
   map_option fst (http_request list_decoder ''http://h:8080/v1.3/machine'' (reply_net 404 ''Not Found'' '''')) =
     Some (Inl line85_error)"
  using http_request_non2xx_TypeError
    [of "reply_net 404 ''Not Found'' ''''" "''http://h:8080/v1.3/machine''"
        "\<lparr>status_code = 404, reason = ''Not Found'', content = ''''\<rparr>" list_decoder]
  by simp

text \<open>
  C3: the request meets the contract of the spec (section 4.3) exactly when the
  server's answer is not a reply with a status outside [200, 299].
\<close>

theorem http_request_contract_iff:
  "map_option fst (http_request dec u n) = http_contract dec (respond n (sent n) u) \<longleftrightarrow>
   (\<forall>resp. respond n (sent n) u = Reply resp \<longrightarrow>
      200 \<le> status_code resp \<and> status_code resp \<le> 299)"
  by (cases "respond n (sent n) u")
     (auto simp: http_defs http_contract_def status_ok_def api_failure_TypeError)

theorem http_request_contract_iff_witness:
  "map_option fst (http_request list_decoder ''http://h:8080/v1.3/machine'' (reply_net 200 ''OK'' ''[]'')) =
     http_contract list_decoder
       (respond (reply_net 200 ''OK'' ''[]'') [] ''http://h:8080/v1.3/machine'') \<and>
   map_option fst (http_request list_decoder ''http://h:8080/v1.3/machine'' (reply_net 500 ''Oops'' ''[]'')) \<noteq>
     http_contract list_decoder
       (respond (reply_net 500 ''Oops'' ''[]'') [] ''http://h:8080/v1.3/machine'')"
  using http_request_contract_iff
    [of list_decoder "''http://h:8080/v1.3/machine''" "reply_net 200 ''OK'' ''[]''"]
    http_request_contract_iff
    [of list_decoder "''http://h:8080/v1.3/machine''" "reply_net 500 ''Oops'' ''[]''"]
  by simp

text \<open>
  C4: a reply with a 2xx status whose body decodes returns the decoded value, and
  the network has logged the URL.
\<close>

theorem http_request_2xx_decoded:
  assumes "respond n (sent n) u = Reply resp"
    and "200 \<le> status_code resp" and "status_code resp \<le> 299"
    and "dec (content resp) = Some j"
  shows "http_request dec u n = Some (Inr j, n\<lparr>sent := sent n @ [u]\<rparr>)"
  using assms by (simp add: http_defs status_ok_2xx resp_json_def)

theorem http_request_2xx_decoded_witness:
  "http_request list_decoder ''http://h:8080/v1.3/machine'' (reply_net 200 ''OK'' ''[]'') =
     Some (Inr 0, (reply_net 200 ''OK'' ''[]'')\<lparr>sent := [''http://h:8080/v1.3/machine'']\<rparr>)"
  using http_request_2xx_decoded
    [of "reply_net 200 ''OK'' ''[]''" "''http://h:8080/v1.3/machine''"
        "\<lparr>status_code = 200, reason = ''OK'', content = ''[]''\<rparr>" list_decoder 0]
  by simp

text \<open>
  C5: a reply with a 2xx status whose body is not JSON raises the decoder's error,
  which is not the typed API failure.
\<close>

theorem http_request_not_json:
  assumes "respond n (sent n) u = Reply resp"
    and "200 \<le> status_code resp" and "status_code resp \<le> 299"
    and "dec (content resp) = None"
  shows "http_request dec u n = Some (Inl JSONDecodeError, n\<lparr>sent := sent n @ [u]\<rparr>)"
  using assms by (simp add: http_defs status_ok_2xx resp_json_def)

theorem http_request_not_json_witness:
  "map_option fst (http_request list_decoder ''http://h:8080/v1.3/machine'' (reply_net 200 ''OK'' ''not json'')) =
     Some (Inl JSONDecodeError)"
  using http_request_not_json
    [of "reply_net 200 ''OK'' ''not json''" "''http://h:8080/v1.3/machine''"
        "\<lparr>status_code = 200, reason = ''OK'', content = ''not json''\<rparr>" list_decoder]
  by simp

text \<open>
  C10: the status test \<^verbatim>\<open>status_code // 100 != 2\<close> (floor division) accepts
  exactly the statuses from 200 to 299, negative ones included.
\<close>

theorem status_ok_range: "status_ok c \<longleftrightarrow> 200 \<le> c \<and> c \<le> 299"
  by (auto simp: status_ok_def)

text \<open>
  C11: a request that returns a value was answered by a 2xx reply whose body
  decodes to that value.
\<close>

theorem http_request_success_2xx:
  assumes "http_request dec u n = Some (Inr j, n')"
  shows "\<exists>resp. respond n (sent n) u = Reply resp \<and>
    200 \<le> status_code resp \<and> status_code resp \<le> 299 \<and> dec (content resp) = Some j"
  using assms
  by (auto simp: http_defs status_ok_def resp_json_def
           split: http_outcome.splits if_splits option.splits)

theorem http_request_success_2xx_witness:
  "\<exists>resp. respond (reply_net 204 ''No Content'' ''[]'') [] ''http://h:8080/v1.3/machine'' = Reply resp \<and>
     200 \<le> status_code resp \<and> status_code resp \<le> 299 \<and> list_decoder (content resp) = Some 0"
  using http_request_success_2xx
    [of list_decoder "''http://h:8080/v1.3/machine''" "reply_net 204 ''No Content'' ''[]''" 0
        "(reply_net 204 ''No Content'' ''[]'')\<lparr>sent := [''http://h:8080/v1.3/machine'']\<rparr>"]
  by simp

end
