(* ===== verification/SubClients.thy ===== *)
theory SubClients
  imports PyFormat
begin

text \<open>
  The resource sub-clients of \<^verbatim>\<open>src/cadvisor_client.py\<close> (lines 28--69): the
  abstract \<^verbatim>\<open>_BaseClient\<close> with its \<^verbatim>\<open>request\<close>, and the subclasses
  \<^verbatim>\<open>MachineAPIClient\<close>, \<^verbatim>\<open>ContainerSpecAPIClient\<close> and
  \<^verbatim>\<open>ContainerStatsAPIClient\<close>, each a class attribute \<^verbatim>\<open>base_url\<close> and one or two
  accessors. A sub-client is its class (\<open>api_client\<close>); the object it holds in
  \<^verbatim>\<open>self.client\<close> is seen only through its \<^verbatim>\<open>request(path)\<close> method, a
  parameter \<open>creq\<close> of type \<open>('s, 'r) client_request\<close> over any state \<open>'s\<close>
  (its value \<open>None\<close> is a request that never returns):
  this is the interface between the sub-clients and the facade, which
  instantiates it with its HTTP request. A container id is \<open>string option\<close>,
  \<open>None\<close> being Python's \<^verbatim>\<open>None\<close>. The lemmas compute the path of every
  accessor, show that building a path never raises, that every accessor makes
  exactly one call of \<open>creq\<close> with that path, and compare the paths with the table
  of the spec (sections 4.2 and 6), which differs for \<^verbatim>\<open>get_all_stats\<close>.
\<close>

section \<open>Sub-client classes and their requests\<close>

datatype api_client = MachineAPIClient | ContainerSpecAPIClient | ContainerStatsAPIClient

fun base_url :: "api_client \<Rightarrow> string" where
  "base_url MachineAPIClient = ''/machine''"
| "base_url ContainerSpecAPIClient = ''/spec/%(container_id)s''"
| "base_url ContainerStatsAPIClient = ''/stats/%(container_id)s''"

type_synonym ('s, 'r) client_request = "string \<Rightarrow> 's \<Rightarrow> ('r py_result \<times> 's) option"

text \<open>
  Lines 39--41: the path is the class's template, formatted with the id when one
  is given (\<^verbatim>\<open>path % {'container_id': container_id}\<close>).
\<close>

definition request_path :: "api_client \<Rightarrow> string option \<Rightarrow> string py_result" where
  "request_path k cid =
     (case cid of
        None \<Rightarrow> Inr (base_url k)
      | Some c \<Rightarrow> py_format (base_url k) [''container_id'' \<mapsto> c])"

text \<open>\<^verbatim>\<open>_BaseClient.request\<close>, lines 38--42: build the path, then \<^verbatim>\<open>self.client.request(path)\<close>.\<close>

definition base_request ::
  "('s, 'r) client_request \<Rightarrow> api_client \<Rightarrow> string option \<Rightarrow> 's \<Rightarrow> ('r py_result \<times> 's) option" where
  "base_request creq k cid s =
     (case request_path k cid of Inl e \<Rightarrow> Some (Inl e, s) | Inr p \<Rightarrow> creq p s)"

definition get_machine_info :: "('s, 'r) client_request \<Rightarrow> 's \<Rightarrow> ('r py_result \<times> 's) option" where
  [request_defs]: "get_machine_info creq = base_request creq MachineAPIClient None"

definition get_container_spec ::
  "('s, 'r) client_request \<Rightarrow> string option \<Rightarrow> 's \<Rightarrow> ('r py_result \<times> 's) option" where
  [request_defs]: "get_container_spec creq cid = base_request creq ContainerSpecAPIClient cid"

definition get_container_stats ::
  "('s, 'r) client_request \<Rightarrow> string option \<Rightarrow> 's \<Rightarrow> ('r py_result \<times> 's) option" where
  [request_defs]: "get_container_stats creq cid = base_request creq ContainerStatsAPIClient cid"

definition get_all_stats :: "('s, 'r) client_request \<Rightarrow> 's \<Rightarrow> ('r py_result \<times> 's) option" where
  [request_defs]: "get_all_stats creq = base_request creq ContainerStatsAPIClient None"

section \<open>The paths the spec promises\<close>

text \<open>
  Spec, sections 4.2 and 6: \<open>/machine\<close>; \<open>/spec/{id}\<close>, and the template left
  unsubstituted when no id is given (the edge case of section 4.2);
  \<open>/stats/{id}\<close>, and \<open>/stats/\<close> for all containers.
\<close>

fun spec_path :: "api_client \<Rightarrow> string option \<Rightarrow> string" where
  "spec_path MachineAPIClient cid = ''/machine''"
| "spec_path ContainerSpecAPIClient (Some c) = ''/spec/'' @ c"
| "spec_path ContainerSpecAPIClient None = ''/spec/%(container_id)s''"
| "spec_path ContainerStatsAPIClient (Some c) = ''/stats/'' @ c"
| "spec_path ContainerStatsAPIClient None = ''/stats/''"

section \<open>Lemmas\<close>

text \<open>The path of each class and argument, computed once for all the accessors.\<close>

lemma request_path_simps [simp]:
  "request_path MachineAPIClient cid = Inr ''/machine''"
  "request_path ContainerSpecAPIClient (Some c) = Inr (''/spec/'' @ c)"
  "request_path ContainerSpecAPIClient None = Inr ''/spec/%(container_id)s''"
  "request_path ContainerStatsAPIClient (Some c) = Inr (''/stats/'' @ c)"
  "request_path ContainerStatsAPIClient None = Inr ''/stats/%(container_id)s''"
  by (simp_all add: request_path_def split: option.split)

lemma base_request_path:
  "request_path k cid = Inr p \<Longrightarrow> base_request creq k cid s = creq p s"
  by (simp add: base_request_def)

section \<open>The accessors\<close>

text \<open>
  C8: every accessor makes one call of the facade's \<^verbatim>\<open>request\<close>, with the path
  of its class: the container id is copied into the path as it is, whatever
  characters it holds; \<^verbatim>\<open>get_all_stats\<close> and \<^verbatim>\<open>get_container_spec(None)\<close>
  pass the unformatted template.
\<close>

theorem accessor_paths:
  "get_machine_info creq s = creq ''/machine'' s \<and>
   get_container_spec creq (Some c) s = creq (''/spec/'' @ c) s \<and>
   get_container_spec creq None s = creq ''/spec/%(container_id)s'' s \<and>
   get_container_stats creq (Some c) s = creq (''/stats/'' @ c) s \<and>
   get_container_stats creq None s = creq ''/stats/%(container_id)s'' s \<and>
   get_all_stats creq s = creq ''/stats/%(container_id)s'' s"
  by (simp add: request_defs base_request_def)

text \<open>
  C7: the path a sub-client builds is the one the spec's table gives (sections 4.2
  and 6) for every class and argument except one: asking for the stats of all
  containers requests \<open>/stats/%(container_id)s\<close>, not \<open>/stats/\<close>.
\<close>

theorem request_path_spec_iff:
  "request_path k cid = Inr (spec_path k cid) \<longleftrightarrow>
   \<not> (k = ContainerStatsAPIClient \<and> cid = None)"
  by (cases k; cases cid) simp_all

theorem request_path_spec_iff_witness:
  "request_path ContainerStatsAPIClient (Some ''abc123'') = Inr (spec_path ContainerStatsAPIClient (Some ''abc123'')) \<and>
   request_path ContainerStatsAPIClient None \<noteq> Inr (spec_path ContainerStatsAPIClient None)"
  using request_path_spec_iff [of ContainerStatsAPIClient "Some ''abc123''"]
    request_path_spec_iff [of ContainerStatsAPIClient None]
  by simp

text \<open>
  C14: building a path never raises: no template of a sub-client makes the
  formatter fail, for any container id.
\<close>

theorem request_path_never_raises: "\<not> isl (request_path k cid)"
  by (cases k; cases cid) simp_all

end
