(* ===== verification/Client.thy ===== *)
theory Client
  imports Transport SubClients
begin

text \<open>
  The facade \<^verbatim>\<open>CadvisorClient\<close> of \<^verbatim>\<open>src/cadvisor_client.py\<close> (lines 72--91) and
  the module-level configuration it reads (lines 11--21). The object is a record:
  the formatted endpoint \<^verbatim>\<open>self._endpoint\<close> and the classes of its three
  sub-client attributes (the attributes' back reference to the facade is the
  request function \<open>client_request\<close> they are called with). \<open>client_request\<close>
  instantiates the sub-clients' interface \<open>('s, 'r) client_request\<close> with the
  network state of \<open>Transport\<close>.

  Python evaluates default arguments once, when the \<^verbatim>\<open>def\<close> runs, at import:
  \<^verbatim>\<open>port=cfg.CONF.cAdvisor_port\<close> reads the option before any configuration file
  is loaded. \<open>module_state\<close> keeps the options' current values and the two
  captured defaults, and \<open>module_reachable\<close> is the module's life: import, then
  any number of configuration loads.

  A caller's program is a list of \<open>call\<close>s, each a method called on one of the
  facade's attributes (\<^verbatim>\<open>client.container_stats.get_container_stats(id)\<close>); the
  method is looked up in the attribute's class, as Python does. \<open>run_calls\<close> runs
  such a list, catching each call's exception, and threads the network through;
  \<open>run_script\<close> runs it without a handler, so the first exception ends it. A call
  to a server that never answers does not return (\<open>None\<close>), and neither does
  the list it is part of.
\<close>

section \<open>Configuration options and the module's life\<close>

record cadvisor_conf =
  cAdvisor_port :: string
  cAdvisor_version :: string

text \<open>\<^verbatim>\<open>OPTS\<close>, lines 11--18: the declared defaults.\<close>

definition OPTS_defaults :: cadvisor_conf where
  "OPTS_defaults = \<lparr>cAdvisor_port = ''8080'', cAdvisor_version = ''v1.3''\<rparr>"

record module_state =
  conf :: cadvisor_conf
  default_port :: string
  default_version :: string

text \<open>
  Import: \<^verbatim>\<open>CONF.register_opts(OPTS)\<close> (line 21), then the \<^verbatim>\<open>def __init__\<close> of
  line 73 evaluates its defaults from the options as they are then.
\<close>

definition import_module :: module_state where
  "import_module =
     (let c = OPTS_defaults
      in \<lparr>conf = c, default_port = cAdvisor_port c, default_version = cAdvisor_version c\<rparr>)"

inductive module_reachable :: "module_state \<Rightarrow> bool" where
  import: "module_reachable import_module"
| load_config: "module_reachable s \<Longrightarrow> module_reachable (s\<lparr>conf := c\<rparr>)"

section \<open>The facade\<close>

record cadvisor_client =
  endpoint :: string
  machine :: api_client
  container_spec :: api_client
  container_stats :: api_client

definition endpoint_template :: string where
  "endpoint_template = ''%(endpoint_url)s:%(port)s/%(version)s''"

text \<open>\<^verbatim>\<open>CadvisorClient.__init__\<close>, lines 73--80.\<close>

definition CadvisorClient :: "string \<Rightarrow> string \<Rightarrow> string \<Rightarrow> cadvisor_client py_result" where
  "CadvisorClient endpoint_url port version =
     py_bind (py_format endpoint_template
                [''endpoint_url'' \<mapsto> endpoint_url, ''port'' \<mapsto> port, ''version'' \<mapsto> version])
       (\<lambda>e. Inr \<lparr>endpoint = e, machine = MachineAPIClient,
                 container_spec = ContainerSpecAPIClient,
                 container_stats = ContainerStatsAPIClient\<rparr>)"

text \<open>\<^verbatim>\<open>CadvisorClient(endpoint_url)\<close>: the defaults captured at import.\<close>

definition CadvisorClient_default :: "module_state \<Rightarrow> string \<Rightarrow> cadvisor_client py_result" where
  "CadvisorClient_default s endpoint_url =
     CadvisorClient endpoint_url (default_port s) (default_version s)"

text \<open>\<^verbatim>\<open>CadvisorClient.request\<close>, lines 89--91.\<close>

definition client_request :: "'j decoder \<Rightarrow> cadvisor_client \<Rightarrow> (net, 'j) client_request" where
  "client_request dec c path n = http_request dec (endpoint c @ path) n"

section \<open>Calls on the facade's attributes\<close>

datatype call =
    GetMachineInfo
  | GetContainerSpec "string option"
  | GetContainerStats "string option"
  | GetAllStats

text \<open>The attribute a call reads, and the class that defines the method it calls.\<close>

fun call_attr :: "cadvisor_client \<Rightarrow> call \<Rightarrow> api_client" where
  "call_attr c GetMachineInfo = machine c"
| "call_attr c (GetContainerSpec cid) = container_spec c"
| "call_attr c (GetContainerStats cid) = container_stats c"
| "call_attr c GetAllStats = container_stats c"

fun call_class :: "call \<Rightarrow> api_client" where
  "call_class GetMachineInfo = MachineAPIClient"
| "call_class (GetContainerSpec cid) = ContainerSpecAPIClient"
| "call_class (GetContainerStats cid) = ContainerStatsAPIClient"
| "call_class GetAllStats = ContainerStatsAPIClient"

fun call_method ::
  "call \<Rightarrow> (net, 'j) client_request \<Rightarrow> net \<Rightarrow> ('j py_result \<times> net) option" where
  "call_method GetMachineInfo creq = get_machine_info creq"
| "call_method (GetContainerSpec cid) creq = get_container_spec creq cid"
| "call_method (GetContainerStats cid) creq = get_container_stats creq cid"
| "call_method GetAllStats creq = get_all_stats creq"

fun call_name :: "call \<Rightarrow> string" where
  "call_name GetMachineInfo = ''get_machine_info''"
| "call_name (GetContainerSpec cid) = ''get_container_spec''"
| "call_name (GetContainerStats cid) = ''get_container_stats''"
| "call_name GetAllStats = ''get_all_stats''"

text \<open>
  A call \<^verbatim>\<open>client.attr.method(args)\<close>: Python looks the method up in the class
  of the attribute's object; \<open>None\<close> is a call that never returns.
\<close>

definition run_call ::
  "'j decoder \<Rightarrow> cadvisor_client \<Rightarrow> call \<Rightarrow> net \<Rightarrow> ('j py_result \<times> net) option" where
  "run_call dec c x n =
     (if call_attr c x = call_class x then call_method x (client_request dec c) n
      else Some (Inl (AttributeError (call_name x)), n))"

text \<open>
  A caller that makes a sequence of calls and handles the exception of each: the
  result of every call, in order; a call that never returns blocks the caller, so
  the sequence does not return either.
\<close>

fun run_calls ::
  "'j decoder \<Rightarrow> cadvisor_client \<Rightarrow> call list \<Rightarrow> net \<Rightarrow> ('j py_result list \<times> net) option" where
  "run_calls dec c [] n = Some ([], n)"
| "run_calls dec c (x # xs) n =
     (case run_call dec c x n of
        None \<Rightarrow> None
      | Some (r, n') \<Rightarrow> map_option (\<lambda>(rs, n''). (r # rs, n'')) (run_calls dec c xs n'))"

text \<open>The container id a call passes, if any.\<close>

fun call_arg :: "call \<Rightarrow> string option" where
  "call_arg GetMachineInfo = None"
| "call_arg (GetContainerSpec cid) = cid"
| "call_arg (GetContainerStats cid) = cid"
| "call_arg GetAllStats = None"

text \<open>
  The URL a call requests: the endpoint (line 90) followed by the path the
  sub-client builds (lines 39--41).
\<close>

abbreviation call_url :: "cadvisor_client \<Rightarrow> call \<Rightarrow> url" where
  "call_url c x \<equiv> endpoint c @ projr (request_path (call_class x) (call_arg x))"


section \<open>Concrete inputs for the examples\<close>

abbreviation demo_client :: cadvisor_client where
  "demo_client \<equiv> \<lparr>endpoint = ''http://h:8080/v1.3'', machine = MachineAPIClient,
     container_spec = ContainerSpecAPIClient, container_stats = ContainerStatsAPIClient\<rparr>"

section \<open>Lemmas\<close>

lemma CadvisorClient_eq:
  "CadvisorClient u p v =
     Inr \<lparr>endpoint = u @ '':'' @ p @ ''/'' @ v, machine = MachineAPIClient,
          container_spec = ContainerSpecAPIClient, container_stats = ContainerStatsAPIClient\<rparr>"
  by (simp add: CadvisorClient_def endpoint_template_def)

lemma CadvisorClient_Inr_endpoint:
  "CadvisorClient u p v = Inr c \<Longrightarrow> endpoint c = u @ '':'' @ p @ ''/'' @ v"
  by (auto simp: CadvisorClient_eq)

lemma module_reachable_defaults:
  "module_reachable s \<Longrightarrow> default_port s = ''8080'' \<and> default_version s = ''v1.3''"
proof (induction rule: module_reachable.induct)
  case import
  show ?case by (simp add: import_module_def OPTS_defaults_def)
next
  case (load_config s c)
  then show ?case by simp
qed

lemma CadvisorClient_dispatch:
  "CadvisorClient u p v = Inr c \<Longrightarrow> call_attr c x = call_class x"
  by (cases x) (auto simp: CadvisorClient_eq)

lemma call_method_path:
  "request_path (call_class x) (call_arg x) = Inr q \<Longrightarrow> call_method x creq n = creq q n"
  by (cases x) (simp_all add: request_defs base_request_path)

lemma call_path_Inr: "\<exists>q. request_path (call_class x) (call_arg x) = Inr q"
proof (cases x)
  case (GetContainerSpec cid)
  then show ?thesis by (cases cid) simp_all
next
  case (GetContainerStats cid)
  then show ?thesis by (cases cid) simp_all
qed simp_all

lemma run_call_http:
  assumes "CadvisorClient u p v = Inr c" and "request_path (call_class x) (call_arg x) = Inr q"
  shows "run_call dec c x n = http_request dec (endpoint c @ q) n"
proof -
  have "call_attr c x = call_class x" using assms(1) by (rule CadvisorClient_dispatch)
  then have "run_call dec c x n = call_method x (client_request dec c) n"
    by (simp add: run_call_def)
  also have "\<dots> = client_request dec c q n" using assms(2) by (rule call_method_path)
  also have "\<dots> = http_request dec (endpoint c @ q) n" by (simp add: client_request_def)
  finally show ?thesis .
qed


text \<open>A call on a constructed facade is the request of its URL.\<close>

lemma run_call_url:
  "CadvisorClient u p v = Inr c \<Longrightarrow> run_call dec c x n = http_request dec (call_url c x) n"
  using call_path_Inr [of x] by (auto simp: run_call_http)

lemma run_call_frame:
  "CadvisorClient u p v = Inr c \<Longrightarrow> run_call dec c x n = Some (r, n') \<Longrightarrow>
   n' = n\<lparr>sent := sent n @ [call_url c x]\<rparr>"
  by (simp add: run_call_url http_request_frame)

text \<open>A call returns exactly when the server answers its URL.\<close>

lemma run_call_returns:
  "CadvisorClient u p v = Inr c \<Longrightarrow>
   (\<exists>r n'. run_call dec c x n = Some (r, n')) \<longleftrightarrow> respond n (sent n) (call_url c x) \<noteq> NoAnswer"
  by (simp add: run_call_url http_request_returns)

lemma run_call_answered:
  assumes "CadvisorClient u p v = Inr c" and "respond n (sent n) (call_url c x) \<noteq> NoAnswer"
  obtains r where "run_call dec c x n = Some (r, n\<lparr>sent := sent n @ [call_url c x]\<rparr>)"
  using run_call_returns [OF assms(1), of dec x n] assms(2) run_call_frame [OF assms(1)] by blast

text \<open>
  C9: the facade built from any three strings has the endpoint
  \<open>host:port/version\<close> exactly, whatever the strings hold (a \<open>%\<close> in the host
  is copied, not interpreted), and sub-clients of the three classes.
\<close>

theorem CadvisorClient_endpoint:
  "\<exists>c. CadvisorClient u p v = Inr c \<and> endpoint c = u @ '':'' @ p @ ''/'' @ v \<and>
     machine c = MachineAPIClient \<and> container_spec c = ContainerSpecAPIClient \<and>
     container_stats c = ContainerStatsAPIClient"
  by (simp add: CadvisorClient_eq)

text \<open>
  C12: against a server that answers every request, a sequence of calls on a
  constructed facade returns, with one result per call, and has requested exactly
  one URL per call, in the order of the calls: the endpoint followed by the call's
  path.
\<close>

theorem run_calls_sent:
  assumes "CadvisorClient u p v = Inr c" and "\<forall>h w. respond n h w \<noteq> NoAnswer"
  shows "\<exists>rs. length rs = length xs \<and>
    run_calls dec c xs n = Some (rs, n\<lparr>sent := sent n @ map (call_url c) xs\<rparr>)"
  using assms(2)
proof (induction xs arbitrary: n)
  case Nil
  then show ?case by simp
next
  case (Cons x xs)
  obtain r where step: "run_call dec c x n = Some (r, n\<lparr>sent := sent n @ [call_url c x]\<rparr>)"
    using run_call_answered [OF assms(1)] Cons.prems by blast
  have "\<forall>h w. respond (n\<lparr>sent := sent n @ [call_url c x]\<rparr>) h w \<noteq> NoAnswer"
    using Cons.prems by simp
  then obtain rs where "length rs = length xs"
    "run_calls dec c xs (n\<lparr>sent := sent n @ [call_url c x]\<rparr>) =
       Some (rs, n\<lparr>sent := sent n @ [call_url c x] @ map (call_url c) xs\<rparr>)"
    using Cons.IH by fastforce
  then show ?case using step by (intro exI [of _ "r # rs"]) simp
qed

theorem run_calls_sent_witness:
  "\<exists>rs. length rs = length [GetContainerStats (Some ''abc123''), GetAllStats] \<and>
     run_calls list_decoder demo_client [GetContainerStats (Some ''abc123''), GetAllStats]
       (reply_net 200 ''OK'' ''[]'') =
     Some (rs, (reply_net 200 ''OK'' ''[]'')\<lparr>sent :=
       [''http://h:8080/v1.3/stats/abc123'', ''http://h:8080/v1.3/stats/%(container_id)s'']\<rparr>)"
  using run_calls_sent [where u = "''http://h''" and p = "''8080''" and v = "''v1.3''"
      and c = demo_client and dec = list_decoder and xs = "[GetContainerStats (Some ''abc123''), GetAllStats]"
      and n = "reply_net 200 ''OK'' ''[]''"]
  by (simp add: CadvisorClient_eq)

text \<open>
  C13: on a facade built by the constructor, every call finds its method on the
  attribute it is called on: no call raises \<open>AttributeError\<close>.
\<close>

theorem run_call_no_AttributeError:
  assumes "CadvisorClient u p v = Inr c"
  shows "run_call dec c x n \<noteq> Some (Inl (AttributeError m), n')"
  using assms
  by (auto simp: run_call_url http_request_eq http_result_not_AttributeError)

theorem run_call_no_AttributeError_witness:
  "run_call list_decoder demo_client GetMachineInfo (reply_net 200 ''OK'' ''[]'') \<noteq>
     Some (Inl (AttributeError ''get_machine_info''), reply_net 200 ''OK'' ''[]'')"
  using run_call_no_AttributeError [of "''http://h''" "''8080''" "''v1.3''" demo_client list_decoder
      GetMachineInfo "reply_net 200 ''OK'' ''[]''" "''get_machine_info''" "reply_net 200 ''OK'' ''[]''"]
  by (simp add: CadvisorClient_eq)



text \<open>
  C19: a sequence of calls on a constructed facade returns exactly when the server
  answers each of its requests: the \<open>i\<close>-th call's URL, asked after the URLs of
  the calls before it. No timeout is set, so one request the server leaves
  unanswered blocks the caller for good.
\<close>

theorem run_calls_returns:
  assumes "CadvisorClient u p v = Inr c"
  shows "run_calls dec c xs n \<noteq> None \<longleftrightarrow>
    (\<forall>i < length xs. respond n (sent n @ map (call_url c) (take i xs)) (call_url c (xs ! i)) \<noteq> NoAnswer)"
proof (induction xs arbitrary: n)
  case Nil
  then show ?case by simp
next
  case (Cons x xs)
  show ?case
  proof (cases "respond n (sent n) (call_url c x) = NoAnswer")
    case True
    then have "run_call dec c x n = None"
      using run_call_returns [OF assms, of dec x n] by (cases "run_call dec c x n") auto
    with True show ?thesis by (auto intro: exI [of _ 0])
  next
    case False
    let ?n1 = "n\<lparr>sent := sent n @ [call_url c x]\<rparr>"
    obtain r where step: "run_call dec c x n = Some (r, ?n1)"
      using run_call_answered [OF assms False] by blast
    have "run_calls dec c (x # xs) n \<noteq> None \<longleftrightarrow> run_calls dec c xs ?n1 \<noteq> None"
      using step by simp
    also have "\<dots> \<longleftrightarrow> (\<forall>i < length xs.
        respond n (sent n @ map (call_url c) (take (Suc i) (x # xs))) (call_url c ((x # xs) ! Suc i)) \<noteq> NoAnswer)"
      using Cons.IH [of ?n1] by simp
    also have "\<dots> \<longleftrightarrow> (\<forall>i < length (x # xs).
        respond n (sent n @ map (call_url c) (take i (x # xs))) (call_url c ((x # xs) ! i)) \<noteq> NoAnswer)"
      using False by (simp only: length_Cons All_less_Suc2) simp
    finally show ?thesis .
  qed
qed

theorem run_calls_returns_witness:
  "run_calls list_decoder demo_client [GetMachineInfo, GetAllStats]
     \<lparr>sent = [], respond = (\<lambda>h w. if w = ''http://h:8080/v1.3/machine''
        then Reply \<lparr>status_code = 200, reason = ''OK'', content = ''[]''\<rparr> else NoAnswer)\<rparr> = None"
proof -
  let ?n = "\<lparr>sent = [], respond = (\<lambda>h w. if w = ''http://h:8080/v1.3/machine''
        then Reply \<lparr>status_code = 200, reason = ''OK'', content = ''[]''\<rparr> else NoAnswer)\<rparr>"
  have "\<not> (\<forall>i < length [GetMachineInfo, GetAllStats].
      respond ?n (sent ?n @ map (call_url demo_client) (take i [GetMachineInfo, GetAllStats]))
        (call_url demo_client ([GetMachineInfo, GetAllStats] ! i)) \<noteq> NoAnswer)"
    by (simp add: All_less_Suc2)
  moreover have "CadvisorClient ''http://h'' ''8080'' ''v1.3'' = Inr demo_client"
    by (simp add: CadvisorClient_eq)
  ultimately show ?thesis
    using run_calls_returns [of "''http://h''" "''8080''" "''v1.3''" demo_client list_decoder
        "[GetMachineInfo, GetAllStats]" ?n]
    by blast
qed

end
