(* ===== verification/Json.thy ===== *)
theory Json
  imports Prelude
begin

text \<open>
  JSON values, the decoder behind \<^verbatim>\<open>resp.json()\<close> (line 87 of
  \<^verbatim>\<open>src/cadvisor_client.py\<close>) and the printer a server uses, after CPython's
  \<^verbatim>\<open>json\<close> module, which the requests library calls: \<open>json_loads\<close> follows
  the scanner of \<^verbatim>\<open>json.decoder\<close> (whitespace skipped around every token,
  literals, strings with their escapes, integers, arrays and objects, and no
  trailing data), \<open>json_dumps\<close> follows \<^verbatim>\<open>json.dumps\<close> with its defaults
  (\<^verbatim>\<open>ensure_ascii\<close>, separators \<^verbatim>\<open>, \<close> and \<^verbatim>\<open>: \<close>). The decoder is
  total through fuel: nesting depth is bounded by the length of the text, and
  \<open>json_loads\<close> gives one unit per character. The fuel is an artefact of the
  model: CPython's scanner recurses without a counter and stops only at the
  interpreter's recursion limit, raising \<^verbatim>\<open>RecursionError\<close> on a text nested
  some thousand levels deep; that limit is not modelled, and the model decodes
  such a text. An object is the list of its
  members in text order; building the Python dict (the last of duplicate keys
  wins) is left to the caller. Outside the modelled fragment the decoder answers
  \<open>None\<close> where Python accepts: numbers with a fraction or an exponent,
  \<^verbatim>\<open>NaN\<close> and \<^verbatim>\<open>Infinity\<close>, and Unicode escapes above 255 (HOL
  characters are bytes). The lemmas prove the round trip: the decoder reads back
  every value the printer writes, followed by any text that cannot continue a
  number.
\<close>

section \<open>Values and lexical helpers\<close>

datatype json = JNull | JBool bool | JNum int | JStr string | JArr "json list" | JObj "(string \<times> json) list"

definition is_ws :: "char \<Rightarrow> bool" where
  "is_ws c \<longleftrightarrow> c = CHR '' '' \<or> c = CHR 0x09 \<or> c = CHR 0x0A \<or> c = CHR 0x0D"

definition is_digit :: "char \<Rightarrow> bool" where
  "is_digit c \<longleftrightarrow> 48 \<le> (of_char c :: nat) \<and> (of_char c :: nat) \<le> 57"

fun skip_ws :: "string \<Rightarrow> string" where
  "skip_ws [] = []"
| "skip_ws (c # cs) = (if is_ws c then skip_ws cs else c # cs)"

definition digit_val :: "char \<Rightarrow> nat" where
  "digit_val c = of_char c - 48"

fun hex_val :: "char \<Rightarrow> nat option" where
  "hex_val c =
     (if is_digit c then Some (digit_val c)
      else if 97 \<le> (of_char c :: nat) \<and> (of_char c :: nat) \<le> 102 then Some (of_char c - 87)
      else if 65 \<le> (of_char c :: nat) \<and> (of_char c :: nat) \<le> 70 then Some (of_char c - 55)
      else None)"

fun unescape :: "char \<Rightarrow> char option" where
  "unescape c =
     (if c = CHR 0x22 then Some (CHR 0x22)
      else if c = CHR 0x5C then Some (CHR 0x5C)
      else if c = CHR ''/'' then Some (CHR ''/'')
      else if c = CHR ''b'' then Some (CHR 0x08)
      else if c = CHR ''f'' then Some (CHR 0x0C)
      else if c = CHR ''n'' then Some (CHR 0x0A)
      else if c = CHR ''r'' then Some (CHR 0x0D)
      else if c = CHR ''t'' then Some (CHR 0x09)
      else None)"

fun hex4 :: "char \<Rightarrow> char \<Rightarrow> char \<Rightarrow> char \<Rightarrow> nat option" where
  "hex4 a b c d =
     (case (hex_val a, hex_val b, hex_val c, hex_val d) of
        (Some w, Some x, Some y, Some z) \<Rightarrow> Some (((w * 16 + x) * 16 + y) * 16 + z)
      | _ \<Rightarrow> None)"

text \<open>A string body after its opening quote: the text and what follows the closing quote.\<close>

fun parse_string :: "string \<Rightarrow> (string \<times> string) option" where
  "parse_string [] = None"
| "parse_string (c # cs) =
     (if c = CHR 0x22 then Some ([], cs)
      else if c = CHR 0x5C then
        (case cs of
           [] \<Rightarrow> None
         | e # es \<Rightarrow>
             if e = CHR ''u'' then
               (case es of
                  h1 # h2 # h3 # h4 # r \<Rightarrow>
                    (case hex4 h1 h2 h3 h4 of
                       None \<Rightarrow> None
                     | Some n \<Rightarrow>
                         if n < 256 then map_option (apfst ((#) (char_of n))) (parse_string r)
                         else None)
                | _ \<Rightarrow> None)
             else
               (case unescape e of
                  None \<Rightarrow> None
                | Some d \<Rightarrow> map_option (apfst ((#) d)) (parse_string es)))
      else if (of_char c :: nat) < 32 then None
      else map_option (apfst ((#) c)) (parse_string cs))"

section \<open>Numbers\<close>

fun take_digits :: "string \<Rightarrow> string \<times> string" where
  "take_digits [] = ([], [])"
| "take_digits (c # cs) =
     (if is_digit c then apfst ((#) c) (take_digits cs) else ([], c # cs))"

definition digits_val :: "string \<Rightarrow> nat" where
  "digits_val ds = foldl (\<lambda>n c. 10 * n + digit_val c) 0 ds"

fun float_follows :: "string \<Rightarrow> bool" where
  "float_follows (c # d # r) =
     ((c = CHR ''.'' \<and> is_digit d) \<or>
      ((c = CHR ''e'' \<or> c = CHR ''E'') \<and>
       (is_digit d \<or> ((d = CHR ''+'' \<or> d = CHR ''-'') \<and> r \<noteq> [] \<and> is_digit (hd r)))))"
| "float_follows _ = False"

definition parse_uint :: "string \<Rightarrow> (nat \<times> string) option" where
  "parse_uint s =
     (case s of
        [] \<Rightarrow> None
      | c # cs \<Rightarrow>
          if c = CHR ''0'' then Some (0, cs)
          else if is_digit c then (case take_digits cs of (ds, r) \<Rightarrow> Some (digits_val (c # ds), r))
          else None)"

definition parse_number :: "string \<Rightarrow> (int \<times> string) option" where
  "parse_number s =
     (let (neg, s') = (if s \<noteq> [] \<and> hd s = CHR ''-'' then (True, tl s) else (False, s))
      in case parse_uint s' of
           None \<Rightarrow> None
         | Some (n, r) \<Rightarrow>
             if float_follows r then None else Some (if neg then - int n else int n, r))"

section \<open>The decoder\<close>

text \<open>
  One function per scanner state of \<^verbatim>\<open>json.decoder\<close>: a value, the rest of an
  array after its first element, an object member after its opening quote, the
  rest of an object after a member. The first argument is the fuel.
\<close>

fun parse_value :: "nat \<Rightarrow> string \<Rightarrow> (json \<times> string) option"
and parse_elements :: "nat \<Rightarrow> string \<Rightarrow> (json list \<times> string) option"
and parse_member :: "nat \<Rightarrow> string \<Rightarrow> ((string \<times> json) list \<times> string) option"
and parse_members_rest :: "nat \<Rightarrow> string \<Rightarrow> ((string \<times> json) list \<times> string) option" where
  "parse_value 0 s = None"
| "parse_value (Suc f) s =
     (case skip_ws s of
        [] \<Rightarrow> None
      | c # cs \<Rightarrow>
          if c = CHR ''n'' then (if take 3 cs = ''ull'' then Some (JNull, drop 3 cs) else None)
          else if c = CHR ''t'' then (if take 3 cs = ''rue'' then Some (JBool True, drop 3 cs) else None)
          else if c = CHR ''f'' then (if take 4 cs = ''alse'' then Some (JBool False, drop 4 cs) else None)
          else if c = CHR 0x22 then map_option (apfst JStr) (parse_string cs)
          else if c = CHR ''['' then
            (case skip_ws cs of
               [] \<Rightarrow> None
             | d # ds \<Rightarrow>
                 if d = CHR '']'' then Some (JArr [], ds)
                 else
                   (case parse_value f cs of
                      None \<Rightarrow> None
                    | Some (v, r) \<Rightarrow> map_option (apfst (\<lambda>vs. JArr (v # vs))) (parse_elements f r)))
          else if c = CHR ''{'' then
            (case skip_ws cs of
               [] \<Rightarrow> None
             | d # ds \<Rightarrow>
                 if d = CHR ''}'' then Some (JObj [], ds)
                 else if d = CHR 0x22 then map_option (apfst JObj) (parse_member f ds)
                 else None)
          else if c = CHR ''-'' \<or> is_digit c then map_option (apfst JNum) (parse_number (c # cs))
          else None)"
| "parse_elements 0 s = None"
| "parse_elements (Suc f) s =
     (case skip_ws s of
        [] \<Rightarrow> None
      | c # cs \<Rightarrow>
          if c = CHR '']'' then Some ([], cs)
          else if c = CHR '','' then
            (case parse_value f cs of
               None \<Rightarrow> None
             | Some (v, r) \<Rightarrow> map_option (apfst ((#) v)) (parse_elements f r))
          else None)"
| "parse_member 0 s = None"
| "parse_member (Suc f) s =
     (case parse_string s of
        None \<Rightarrow> None
      | Some (k, r) \<Rightarrow>
          (case skip_ws r of
             [] \<Rightarrow> None
           | d # ds \<Rightarrow>
               if d = CHR '':'' then
                 (case parse_value f ds of
                    None \<Rightarrow> None
                  | Some (v, r') \<Rightarrow> map_option (apfst ((#) (k, v))) (parse_members_rest f r'))
               else None))"
| "parse_members_rest 0 s = None"
| "parse_members_rest (Suc f) s =
     (case skip_ws s of
        [] \<Rightarrow> None
      | c # cs \<Rightarrow>
          if c = CHR ''}'' then Some ([], cs)
          else if c = CHR '','' then
            (case skip_ws cs of
               [] \<Rightarrow> None
             | d # ds \<Rightarrow> if d = CHR 0x22 then parse_member f ds else None)
          else None)"

text \<open>
  \<^verbatim>\<open>json.loads\<close>: a value, then only whitespace. The decoder with fuel
  \<open>f\<close>; \<^verbatim>\<open>json.loads\<close> itself gives it one unit more than the length of the
  text, which theory \<open>JsonFuel\<close> proves is never exhausted.
\<close>

definition json_decode :: "nat \<Rightarrow> string \<Rightarrow> json option" where
  "json_decode f s =
     (case parse_value f s of
        None \<Rightarrow> None
      | Some (j, r) \<Rightarrow> if skip_ws r = [] then Some j else None)"

definition json_loads :: "string \<Rightarrow> json option" where
  "json_loads s = json_decode (Suc (length s)) s"

section \<open>The printer\<close>

fun hex_digit :: "nat \<Rightarrow> char" where
  "hex_digit n = (if n < 10 then char_of (48 + n) else char_of (87 + n))"

definition escape_char :: "char \<Rightarrow> string" where
  "escape_char c =
     (if c = CHR 0x22 then [CHR 0x5C, CHR 0x22]
      else if c = CHR 0x5C then [CHR 0x5C, CHR 0x5C]
      else if c = CHR 0x0A then [CHR 0x5C, CHR ''n'']
      else if c = CHR 0x0D then [CHR 0x5C, CHR ''r'']
      else if c = CHR 0x09 then [CHR 0x5C, CHR ''t'']
      else if c = CHR 0x08 then [CHR 0x5C, CHR ''b'']
      else if c = CHR 0x0C then [CHR 0x5C, CHR ''f'']
      else if (of_char c :: nat) < 32 \<or> 126 < (of_char c :: nat) then
        [CHR 0x5C, CHR ''u'', CHR ''0'', CHR ''0'',
         hex_digit (of_char c div 16), hex_digit (of_char c mod 16)]
      else [c])"

definition dump_string :: "string \<Rightarrow> string" where
  "dump_string s = CHR 0x22 # concat (map escape_char s) @ [CHR 0x22]"

fun nat_digits :: "nat \<Rightarrow> string" where
  "nat_digits n =
     (if n < 10 then [char_of (48 + n)] else nat_digits (n div 10) @ [char_of (48 + n mod 10)])"

definition int_repr :: "int \<Rightarrow> string" where
  "int_repr i = (if i < 0 then CHR ''-'' # nat_digits (nat (- i)) else nat_digits (nat i))"

fun json_dumps :: "json \<Rightarrow> string" where
  "json_dumps JNull = ''null''"
| "json_dumps (JBool b) = (if b then ''true'' else ''false'')"
| "json_dumps (JNum i) = int_repr i"
| "json_dumps (JStr s) = dump_string s"
| "json_dumps (JArr []) = ''[]''"
| "json_dumps (JArr (v # vs)) =
     CHR ''['' # json_dumps v @ concat (map (\<lambda>w. '', '' @ json_dumps w) vs) @ '']''"
| "json_dumps (JObj []) = ''{}''"
| "json_dumps (JObj ((k, v) # ps)) =
     CHR ''{'' # dump_string k @ '': '' @ json_dumps v @
       concat (map (\<lambda>(k', w). '', '' @ dump_string k' @ '': '' @ json_dumps w) ps) @ ''}''"

text \<open>A text that may follow a printed integer without extending it.\<close>

definition ok_rest :: "string \<Rightarrow> bool" where
  "ok_rest r \<longleftrightarrow> (r = [] \<or> \<not> is_digit (hd r)) \<and> \<not> float_follows r"

section \<open>Lemmas: strings\<close>

lemma hex_val_hex_digit: "n < 16 \<Longrightarrow> hex_val (hex_digit n) = Some n"
  by (auto simp: is_digit_def digit_val_def)

lemma hex4_escape:
  "hex4 (CHR ''0'') (CHR ''0'') (hex_digit (of_char c div 16)) (hex_digit (of_char c mod 16)) =
     Some (of_char c)"
proof -
  have "of_char c < 16 * (16::nat)" by simp
  then have h: "of_char c div 16 < (16::nat)" "of_char c mod 16 < (16::nat)"
    by (simp_all add: less_mult_imp_div_less)
  have "(of_char c div 16) * 16 + of_char c mod 16 = (of_char c :: nat)"
    by (rule div_mult_mod_eq)
  moreover have "hex_val (CHR ''0'') = Some 0" by (simp add: is_digit_def digit_val_def)
  ultimately show ?thesis
    using hex_val_hex_digit [OF h(1)] hex_val_hex_digit [OF h(2)]
    by (simp del: hex_val.simps hex_digit.simps)
qed

lemma escape_char_cases:
  obtains (special) "c \<in> {CHR 0x22, CHR 0x5C, CHR 0x0A, CHR 0x0D, CHR 0x09, CHR 0x08, CHR 0x0C}"
  | (ctrl) "c \<notin> {CHR 0x22, CHR 0x5C, CHR 0x0A, CHR 0x0D, CHR 0x09, CHR 0x08, CHR 0x0C}"
      "(of_char c :: nat) < 32 \<or> 126 < (of_char c :: nat)"
  | (plain) "c \<notin> {CHR 0x22, CHR 0x5C, CHR 0x0A, CHR 0x0D, CHR 0x09, CHR 0x08, CHR 0x0C}"
      "32 \<le> (of_char c :: nat)" "(of_char c :: nat) \<le> 126"
proof (cases "c \<in> {CHR 0x22, CHR 0x5C, CHR 0x0A, CHR 0x0D, CHR 0x09, CHR 0x08, CHR 0x0C}")
  case True
  then show thesis by (rule special)
next
  case False
  show thesis
  proof (cases "(of_char c :: nat) < 32 \<or> 126 < (of_char c :: nat)")
    case True
    with False show thesis by (rule ctrl)
  next
    case out: False
    then have "32 \<le> (of_char c :: nat)" "(of_char c :: nat) \<le> 126" by simp_all
    with False show thesis by (rule plain)
  qed
qed

lemma parse_string_escape:
  "parse_string (escape_char c @ r) = map_option (apfst ((#) c)) (parse_string r)"
proof (cases c rule: escape_char_cases)
  case special
  then consider "c = CHR 0x22" | "c = CHR 0x5C" | "c = CHR 0x0A" | "c = CHR 0x0D"
    | "c = CHR 0x09" | "c = CHR 0x08" | "c = CHR 0x0C"
    by blast
  then show ?thesis by cases (simp_all add: escape_char_def)
next
  case ctrl
  then have "escape_char c = [CHR 0x5C, CHR ''u'', CHR ''0'', CHR ''0'',
      hex_digit (of_char c div 16), hex_digit (of_char c mod 16)]"
    by (auto simp: escape_char_def)
  then show ?thesis by (simp add: hex4_escape del: hex4.simps hex_digit.simps)
next
  case plain
  then have "escape_char c = [c]" by (auto simp: escape_char_def)
  with plain show ?thesis by auto
qed

lemma parse_string_dump:
  "parse_string (concat (map escape_char s) @ CHR 0x22 # r) = Some (s, r)"
  by (induction s) (simp_all add: parse_string_escape)

lemma digit_char: "d < 10 \<Longrightarrow> is_digit (char_of (48 + d)) \<and> digit_val (char_of (48 + d)) = d"
  by (simp add: is_digit_def digit_val_def)

lemma digit_char_zero: "(d::nat) < 10 \<Longrightarrow> char_of (48 + d) = CHR ''0'' \<longleftrightarrow> d = 0"
  by (simp flip: of_char_eq_iff [where 'a = nat])

declare nat_digits.simps [simp del]

lemma nat_digits_small: "n < 10 \<Longrightarrow> nat_digits n = [char_of (48 + n)]"
  by (simp add: nat_digits.simps)

lemma nat_digits_large:
  "\<not> n < 10 \<Longrightarrow> nat_digits n = nat_digits (n div 10) @ [char_of (48 + n mod 10)]"
  by (simp add: nat_digits.simps)

lemma nat_digits_digits: "c \<in> set (nat_digits n) \<Longrightarrow> is_digit c"
proof (induction n rule: nat_digits.induct)
  case (1 n)
  then show ?case
    by (cases "n < 10") (auto simp: digit_char nat_digits_small nat_digits_large)
qed

lemma nat_digits_Cons: "\<exists>c cs. nat_digits n = c # cs \<and> is_digit c \<and> (c = CHR ''0'' \<longleftrightarrow> n = 0)
  \<and> (n = 0 \<longrightarrow> cs = [])"
proof (induction n rule: nat_digits.induct)
  case (1 n)
  show ?case
  proof (cases "n < 10")
    case True
    then show ?thesis by (auto simp: digit_char digit_char_zero nat_digits_small)
  next
    case False
    from "1.IH" [OF False] obtain c cs where "nat_digits (n div 10) = c # cs" "is_digit c"
      "c = CHR ''0'' \<longleftrightarrow> n div 10 = 0"
      by auto
    with False show ?thesis by (auto simp: nat_digits_large)
  qed
qed

lemma digits_val_snoc: "digits_val (ds @ [c]) = 10 * digits_val ds + digit_val c"
  by (simp add: digits_val_def)

lemma digits_val_nat_digits: "digits_val (nat_digits n) = n"
proof (induction n rule: nat_digits.induct)
  case (1 n)
  show ?case
  proof (cases "n < 10")
    case True
    then show ?thesis by (simp add: digits_val_def digit_char nat_digits_small)
  next
    case False
    have "n mod 10 < 10" by simp
    then show ?thesis
      using False "1.IH" by (simp add: digits_val_snoc digit_char nat_digits_large)
  qed
qed

lemma take_digits_append:
  "\<forall>c \<in> set ds. is_digit c \<Longrightarrow> r = [] \<or> \<not> is_digit (hd r) \<Longrightarrow> take_digits (ds @ r) = (ds, r)"
proof (induction ds)
  case Nil
  then show ?case by (cases r) auto
next
  case (Cons d ds)
  then show ?case by simp
qed

lemma parse_uint_nat_digits:
  assumes "r = [] \<or> \<not> is_digit (hd r)"
  shows "parse_uint (nat_digits n @ r) = Some (n, r)"
proof -
  obtain c cs where nd: "nat_digits n = c # cs" and c: "is_digit c" "c = CHR ''0'' \<longleftrightarrow> n = 0"
    and z: "n = 0 \<longrightarrow> cs = []"
    using nat_digits_Cons [of n] by blast
  have cs: "\<forall>x \<in> set cs. is_digit x" using nat_digits_digits [of _ n] nd by auto
  show ?thesis
  proof (cases "n = 0")
    case True
    with nd c z show ?thesis by (simp add: parse_uint_def)
  next
    case False
    have "digits_val (c # cs) = n" using digits_val_nat_digits [of n] nd by simp
    with False nd c take_digits_append [OF cs assms] show ?thesis
      by (simp add: parse_uint_def)
  qed
qed

lemma parse_number_int_repr:
  assumes "r = [] \<or> \<not> is_digit (hd r)" and "\<not> float_follows r"
  shows "parse_number (int_repr i @ r) = Some (i, r)"
proof (cases "i < 0")
  case True
  then show ?thesis
    using parse_uint_nat_digits [OF assms(1), of "nat (- i)"] assms(2)
    by (simp add: parse_number_def int_repr_def)
next
  case False
  obtain c cs where nd: "nat_digits (nat i) = c # cs" and "is_digit c"
    using nat_digits_Cons [of "nat i"] by blast
  then have "c \<noteq> CHR ''-''" by (auto simp: is_digit_def)
  with False nd show ?thesis
    using parse_uint_nat_digits [OF assms(1), of "nat i"] assms(2)
    by (simp add: parse_number_def int_repr_def)
qed

section \<open>Lemmas: the round trip\<close>

lemma ok_rest_Nil [simp]: "ok_rest []"
  by (simp add: ok_rest_def)

lemma ok_rest_delim [simp]:
  "ok_rest (CHR '','' # r)" "ok_rest (CHR '']'' # r)" "ok_rest (CHR ''}'' # r)"
  by (cases r; simp add: ok_rest_def is_digit_def)+

lemma digit_not_special:
  "is_digit c \<Longrightarrow> \<not> is_ws c \<and> c \<noteq> CHR ''n'' \<and> c \<noteq> CHR ''t'' \<and> c \<noteq> CHR ''f'' \<and>
     c \<noteq> CHR 0x22 \<and> c \<noteq> CHR ''['' \<and> c \<noteq> CHR ''{'' \<and> c \<noteq> CHR ''-'' \<and> c \<noteq> CHR '']'' \<and> c \<noteq> CHR ''}''"
  by (auto simp: is_digit_def is_ws_def)

lemma int_repr_Cons: "\<exists>c cs. int_repr i = c # cs \<and> (c = CHR ''-'' \<or> is_digit c)"
  using nat_digits_Cons [of "nat i"] by (auto simp: int_repr_def)

lemma json_dumps_hd:
  "json_dumps j \<noteq> [] \<and> \<not> is_ws (hd (json_dumps j)) \<and>
   hd (json_dumps j) \<noteq> CHR '']'' \<and> hd (json_dumps j) \<noteq> CHR ''}''"
proof (cases j)
  case (JNum i)
  obtain c cs where "int_repr i = c # cs" "c = CHR ''-'' \<or> is_digit c"
    using int_repr_Cons [of i] by blast
  with JNum show ?thesis using digit_not_special [of c] by (cases "c = CHR ''-''") (simp_all add: is_ws_def)
next
  case (JBool b)
  then show ?thesis by (cases b) (simp_all add: is_ws_def)
next
  case (JArr vs)
  then show ?thesis by (cases vs) (simp_all add: is_ws_def)
next
  case (JObj ps)
  show ?thesis
  proof (cases ps)
    case (Cons p ps')
    with JObj show ?thesis by (cases p) (simp add: is_ws_def)
  qed (simp add: JObj is_ws_def)
qed (simp_all add: is_ws_def dump_string_def)

lemma skip_ws_dumps: "skip_ws (json_dumps j @ r) = json_dumps j @ r"
  using json_dumps_hd [of j] by (cases "json_dumps j") simp_all

lemma parse_value_ws: "is_ws c \<Longrightarrow> parse_value f (c # s) = parse_value f s"
  by (cases f) simp_all

lemma parse_value_number:
  "c = CHR ''-'' \<or> is_digit c \<Longrightarrow>
   parse_value (Suc f) (c # cs) = map_option (apfst JNum) (parse_number (c # cs))"
  using digit_not_special [of c] by (cases "c = CHR ''-''") (simp_all add: is_ws_def)

lemma parse_elements_dumps:
  assumes "\<And>w f r. w \<in> set ws \<Longrightarrow> size w < f \<Longrightarrow> ok_rest r \<Longrightarrow>
             parse_value f (json_dumps w @ r) = Some (w, r)"
    and "size_list size ws < f"
  shows "parse_elements f (concat (map (\<lambda>w. '', '' @ json_dumps w) ws) @ CHR '']'' # r) = Some (ws, r)"
  using assms
proof (induction ws arbitrary: f)
  case Nil
  then obtain g where "f = Suc g" by (cases f) auto
  then show ?case by (simp add: is_ws_def)
next
  case (Cons w ws)
  then obtain g where f: "f = Suc g" by (cases f) auto
  let ?more = "concat (map (\<lambda>w. '', '' @ json_dumps w) ws) @ CHR '']'' # r"
  have ok: "ok_rest ?more" by (cases ws) simp_all
  have v: "parse_value g (json_dumps w @ ?more) = Some (w, ?more)"
    using Cons.prems(1) [of w g ?more] Cons.prems(2) f ok by simp
  have rest: "parse_elements g ?more = Some (ws, r)"
    using Cons.IH [of g] Cons.prems f by simp
  show ?case
    using v rest f by (simp add: parse_value_ws is_ws_def)
qed

lemma parse_member_dumps:
  assumes "parse_value g (json_dumps v @ more) = Some (v, more)"
    and "parse_members_rest g more = Some (ps, r)"
  shows "parse_member (Suc g) (concat (map escape_char k) @ CHR 0x22 # '': '' @ json_dumps v @ more) =
    Some ((k, v) # ps, r)"
  using assms by (simp add: parse_string_dump parse_value_ws is_ws_def)

lemma parse_members_dumps:
  assumes "\<And>p f r. p \<in> set ps \<Longrightarrow> size (snd p) < f \<Longrightarrow> ok_rest r \<Longrightarrow>
             parse_value f (json_dumps (snd p) @ r) = Some (snd p, r)"
    and "size_list (size_prod (\<lambda>_. 0) size) ps < f"
  shows "parse_members_rest f
           (concat (map (\<lambda>(k', w). '', '' @ dump_string k' @ '': '' @ json_dumps w) ps) @ CHR ''}'' # r) =
         Some (ps, r)"
  using assms
proof (induction ps arbitrary: f)
  case Nil
  then obtain g where "f = Suc g" by (cases f) auto
  then show ?case by (simp add: is_ws_def)
next
  case (Cons p ps)
  obtain k w where p: "p = (k, w)" by (cases p)
  from Cons.prems(2) p obtain g where f: "f = Suc (Suc g)" and sz: "size w < g"
    and szs: "size_list (size_prod (\<lambda>_. 0) size) ps < g"
    by (cases f; cases "f - 1") auto
  let ?more = "concat (map (\<lambda>(k', w). '', '' @ dump_string k' @ '': '' @ json_dumps w) ps) @ CHR ''}'' # r"
  have ok: "ok_rest ?more" by (cases ps) auto
  have v: "parse_value g (json_dumps w @ ?more) = Some (w, ?more)"
    using Cons.prems(1) [of p g ?more] p sz ok by simp
  have rest: "parse_members_rest g ?more = Some (ps, r)"
    using Cons.IH [of g] Cons.prems(1) szs by simp
  have m: "parse_member (Suc g) (concat (map escape_char k) @ CHR 0x22 # '': '' @ json_dumps w @ ?more) =
    Some ((k, w) # ps, r)"
    by (rule parse_member_dumps [OF v rest])
  show ?case
    using m f p by (simp add: dump_string_def is_ws_def)
qed

lemma parse_value_arr:
  "parse_value (Suc f) (CHR ''['' # json_dumps v @ more) =
     (case parse_value f (json_dumps v @ more) of
        None \<Rightarrow> None
      | Some (v', r) \<Rightarrow> map_option (apfst (\<lambda>vs. JArr (v' # vs))) (parse_elements f r))"
  using json_dumps_hd [of v] skip_ws_dumps [of v more]
  by (cases "json_dumps v") (simp_all add: is_ws_def)

lemma parse_value_dumps:
  "size j < f \<Longrightarrow> ok_rest r \<Longrightarrow> parse_value f (json_dumps j @ r) = Some (j, r)"
proof (induction j arbitrary: f r)
  case JNull
  then obtain g where "f = Suc g" by (cases f) auto
  then show ?case by (simp add: is_ws_def)
next
  case (JBool b)
  then obtain g where "f = Suc g" by (cases f) auto
  then show ?case by (cases b) (simp_all add: is_ws_def)
next
  case (JNum i)
  then obtain g where f: "f = Suc g" by (cases f) auto
  obtain c cs where i: "int_repr i = c # cs" "c = CHR ''-'' \<or> is_digit c"
    using int_repr_Cons [of i] by blast
  have "parse_number (int_repr i @ r) = Some (i, r)"
    using JNum.prems(2) by (simp add: parse_number_int_repr ok_rest_def)
  then show ?case
    using parse_value_number [OF i(2), of g "cs @ r"] f i(1) by simp
next
  case (JStr s)
  then obtain g where "f = Suc g" by (cases f) auto
  then show ?case by (simp add: dump_string_def parse_string_dump is_ws_def)
next
  case (JArr vs)
  show ?case
  proof (cases vs)
    case Nil
    with JArr.prems obtain g where "f = Suc g" by (cases f) auto
    with Nil show ?thesis by (simp add: is_ws_def)
  next
    case (Cons v ws)
    with JArr.prems(1) obtain g where f: "f = Suc g" and sz: "size v < g"
      and szs: "size_list size ws < g"
      by (cases f) auto
    let ?more = "concat (map (\<lambda>w. '', '' @ json_dumps w) ws) @ CHR '']'' # r"
    have ok: "ok_rest ?more" by (cases ws) simp_all
    have v: "parse_value g (json_dumps v @ ?more) = Some (v, ?more)"
      using JArr.IH [of v g ?more] Cons sz ok by simp
    have rest: "parse_elements g ?more = Some (ws, r)"
      using parse_elements_dumps [of ws g r] JArr.IH Cons szs by simp
    show ?thesis
      using parse_value_arr [of g v ?more] v rest f Cons by simp
  qed
next
  case (JObj ps)
  show ?case
  proof (cases ps)
    case Nil
    with JObj.prems obtain g where "f = Suc g" by (cases f) auto
    with Nil show ?thesis by (simp add: is_ws_def)
  next
    case (Cons p qs)
    obtain k v where p: "p = (k, v)" by (cases p)
    from JObj.prems(1) Cons p obtain g where f: "f = Suc (Suc g)" and sz: "size v < g"
      and szs: "size_list (size_prod (\<lambda>_. 0) size) qs < g"
      by (cases f; cases "f - 1") auto
    let ?more = "concat (map (\<lambda>(k', w). '', '' @ dump_string k' @ '': '' @ json_dumps w) qs) @ CHR ''}'' # r"
    have ok: "ok_rest ?more" by (cases qs) auto
    have v: "parse_value g (json_dumps v @ ?more) = Some (v, ?more)"
      using JObj.IH [of p v g ?more] Cons p sz ok by simp
    have rest: "parse_members_rest g ?more = Some (qs, r)"
      using parse_members_dumps [of qs g r] JObj.IH Cons szs by fastforce
    have m: "parse_member (Suc g) (concat (map escape_char k) @ CHR 0x22 # '': '' @ json_dumps v @ ?more) =
      Some ((k, v) # qs, r)"
      by (rule parse_member_dumps [OF v rest])
    show ?thesis
      using m f Cons p by (simp add: dump_string_def is_ws_def)
  qed
qed

lemma size_list_concat_le:
  assumes "\<And>w. w \<in> set ws \<Longrightarrow> g w < length (h w)"
  shows "size_list g ws \<le> length (concat (map h ws))"
  using assms by (induction ws) fastforce+

lemma size_json_dumps: "size j < length (json_dumps j)"
proof (induction j)
  case (JNum i)
  then show ?case using int_repr_Cons [of i] by auto
next
  case (JArr vs)
  then show ?case
  proof (cases vs)
    case (Cons v ws)
    have "size_list size ws \<le> length (concat (map (\<lambda>w. '', '' @ json_dumps w) ws))"
      using JArr.IH Cons by (intro size_list_concat_le) (simp add: less_SucI)
    with JArr.IH Cons show ?thesis by fastforce
  qed simp
next
  case (JObj ps)
  then show ?case
  proof (cases ps)
    case (Cons p qs)
    obtain k v where p: "p = (k, v)" by (cases p)
    have "size_list (size_prod (\<lambda>_. 0) size) qs \<le>
        length (concat (map (\<lambda>(k', w). '', '' @ dump_string k' @ '': '' @ json_dumps w) qs))"
      using JObj.IH Cons by (intro size_list_concat_le) (fastforce split: prod.split)
    moreover have "size v < length (json_dumps v)" using JObj.IH Cons p by fastforce
    ultimately show ?thesis using Cons p by simp
  qed simp
qed (simp_all add: dump_string_def)

lemma parse_value_dumps_length:
  "ok_rest r \<Longrightarrow>
   parse_value (Suc (length (json_dumps j @ r))) (json_dumps j @ r) = Some (j, r)"
  using size_json_dumps [of j] by (intro parse_value_dumps) simp_all

end
