(* ===== verification/JsonFuel.thy ===== *)
theory JsonFuel
  imports Json
begin

text \<open>
  Termination of the JSON decoder. \<open>parse_value\<close> and its three companions
  recurse on a fuel argument, because CPython's scanner recurses on the nesting of
  the text and no structural argument decreases. Every call consumes input: what
  remains after a value, an element list, a member or a member list is strictly
  shorter than what it was read from (\<open>parse_rest_shorter\<close>). Hence fuel
  above the length of the text is never exhausted: any larger fuel gives the same
  answer (\<open>parse_fuel\<close>), and \<open>json_loads\<close>, which gives one unit more than
  the length, is the decoder without a bound (\<open>parse_value_fuel\<close>): the fuel
  restricts nothing. CPython's recursion limit, a bound of the interpreter and
  not of the scanner, is not modelled.
\<close>

section \<open>Every scanner step consumes input\<close>

lemma skip_ws_length: "length (skip_ws s) \<le> length s"
  by (induction s) auto

lemma skip_ws_Cons_length: "skip_ws s = c # cs \<Longrightarrow> length cs < length s"
  using skip_ws_length [of s] by simp

lemma parse_string_length: "parse_string s = Some (k, r) \<Longrightarrow> length r < length s"
proof (induction s arbitrary: k rule: length_induct)
  case (1 s)
  show ?case
  proof (cases s)
    case Nil
    with 1 show ?thesis by simp
  next
    case (Cons c cs)
    have IH: "\<And>t k. parse_string t = Some (k, r) \<Longrightarrow> length t < length s \<Longrightarrow> length r < length t"
      using 1 by blast
    from 1(2) Cons show ?thesis
      by (auto simp del: hex4.simps hex_val.simps unescape.simps
          split: if_splits list.splits option.splits) (use IH in fastforce)+
  qed
qed

lemma take_digits_length: "take_digits s = (ds, r) \<Longrightarrow> length r \<le> length s"
  by (induction s arbitrary: ds r rule: take_digits.induct)
    (fastforce split: if_splits prod.splits simp: apfst_def map_prod_def)+

lemma parse_uint_length: "parse_uint s = Some (n, r) \<Longrightarrow> length r < length s"
  by (auto simp: parse_uint_def split: list.splits if_splits prod.splits dest: take_digits_length)

lemma parse_number_length: "parse_number s = Some (i, r) \<Longrightarrow> length r < length s"
  by (cases s) (auto simp: parse_number_def split: if_splits option.splits dest: parse_uint_length)

lemma rest_elements:
  assumes V: "\<And>s v r. parse_value f s = Some (v, r) \<Longrightarrow> length r < length s"
    and E: "\<And>s vs r. parse_elements f s = Some (vs, r) \<Longrightarrow> length r < length s"
  shows "parse_elements (Suc f) s = Some (vs, r) \<Longrightarrow> length r < length s"
proof -
  assume a: "parse_elements (Suc f) s = Some (vs, r)"
  then obtain c cs where sk: "skip_ws s = c # cs" by (cases "skip_ws s") auto
  have l: "length cs < length s" using skip_ws_Cons_length [OF sk] .
  show ?thesis
  proof (cases "c = CHR '']''")
    case True
    then show ?thesis using a sk l by simp
  next
    case False
    then obtain v r1 vs' where "parse_value f cs = Some (v, r1)" "parse_elements f r1 = Some (vs', r)"
      using a sk by (auto split: if_splits option.splits)
    then show ?thesis using l by (auto dest!: V E)
  qed
qed

lemma rest_value:
  assumes V: "\<And>s v r. parse_value f s = Some (v, r) \<Longrightarrow> length r < length s"
    and E: "\<And>s vs r. parse_elements f s = Some (vs, r) \<Longrightarrow> length r < length s"
    and M: "\<And>s ps r. parse_member f s = Some (ps, r) \<Longrightarrow> length r < length s"
    and a: "parse_value (Suc f) s = Some (v, r)"
  shows "length r < length s"
proof -
  from a obtain c cs where sk: "skip_ws s = c # cs" by (cases "skip_ws s") auto
  have l: "length cs < length s" using skip_ws_Cons_length [OF sk] .
  note a' = a [unfolded parse_value.simps(2) sk list.case]
  consider "c = CHR ''n''" | "c = CHR ''t''" | "c = CHR ''f''" | "c = CHR 0x22" | "c = CHR ''[''"
    | "c = CHR ''{''" | "c \<notin> {CHR ''n'', CHR ''t'', CHR ''f'', CHR 0x22, CHR ''['', CHR ''{''}"
    by blast
  then have "length r \<le> length cs"
  proof cases
    case 1
    with a' have "r = drop 3 cs" by (simp split: if_splits)
    then show ?thesis by simp
  next
    case 2
    with a' have "r = drop 3 cs" by (simp split: if_splits)
    then show ?thesis by simp
  next
    case 3
    with a' have "r = drop 4 cs" by (simp split: if_splits)
    then show ?thesis by simp
  next
    case 4
    with a' show ?thesis by (auto dest!: parse_string_length)
  next
    case 5
    with a' obtain d ds where sk2: "skip_ws cs = d # ds" by (cases "skip_ws cs") auto
    note l2 = skip_ws_Cons_length [OF sk2]
    show ?thesis
    proof (cases "d = CHR '']''")
      case True
      with 5 a' sk2 l2 show ?thesis by simp
    next
      case False
      with 5 a' sk2 obtain v' r1 vs where "parse_value f cs = Some (v', r1)"
        "parse_elements f r1 = Some (vs, r)"
        by (auto split: option.splits)
      then show ?thesis by (auto dest!: V E)
    qed
  next
    case 6
    with a' obtain d ds where sk2: "skip_ws cs = d # ds" by (cases "skip_ws cs") auto
    note l2 = skip_ws_Cons_length [OF sk2]
    from 6 a' sk2 have "ds = r \<or> (\<exists>ps. parse_member f ds = Some (ps, r))"
      by (auto split: if_splits)
    with l2 show ?thesis by (auto dest!: M)
  next
    case 7
    with a' have "map_option (apfst JNum) (parse_number (c # cs)) = Some (v, r)"
      by (simp split: if_split_asm)
    then show ?thesis by (auto dest!: parse_number_length)
  qed
  with l show ?thesis by simp
qed

lemma rest_member:
  assumes V: "\<And>s v r. parse_value f s = Some (v, r) \<Longrightarrow> length r < length s"
    and R: "\<And>s ps r. parse_members_rest f s = Some (ps, r) \<Longrightarrow> length r < length s"
    and a: "parse_member (Suc f) s = Some (ps, r)"
  shows "length r < length s"
proof -
  from a obtain k r0 where ps: "parse_string s = Some (k, r0)" by (auto split: option.splits)
  note l0 = parse_string_length [OF ps]
  from a ps obtain d ds where sk: "skip_ws r0 = d # ds" by (cases "skip_ws r0") auto
  note l1 = skip_ws_Cons_length [OF sk]
  from a ps sk obtain v r1 ps' where "parse_value f ds = Some (v, r1)"
    "parse_members_rest f r1 = Some (ps', r)"
    by (auto split: if_splits option.splits)
  with l0 l1 show ?thesis by (auto dest!: V R)
qed

lemma rest_members_rest:
  assumes M: "\<And>s ps r. parse_member f s = Some (ps, r) \<Longrightarrow> length r < length s"
    and a: "parse_members_rest (Suc f) s = Some (ps, r)"
  shows "length r < length s"
proof -
  from a obtain c cs where sk: "skip_ws s = c # cs" by (cases "skip_ws s") auto
  note l = skip_ws_Cons_length [OF sk]
  show ?thesis
  proof (cases "c = CHR ''}''")
    case True
    with a sk l show ?thesis by simp
  next
    case False
    with a sk obtain d ds where sk2: "skip_ws cs = d # ds" and "parse_member f ds = Some (ps, r)"
      by (auto split: if_splits list.splits)
    with l skip_ws_Cons_length [OF sk2] show ?thesis by (auto dest!: M)
  qed
qed

lemma parse_rest_shorter:
  "(\<forall>s v r. parse_value f s = Some (v, r) \<longrightarrow> length r < length s) \<and>
   (\<forall>s vs r. parse_elements f s = Some (vs, r) \<longrightarrow> length r < length s) \<and>
   (\<forall>s ps r. parse_member f s = Some (ps, r) \<longrightarrow> length r < length s) \<and>
   (\<forall>s ps r. parse_members_rest f s = Some (ps, r) \<longrightarrow> length r < length s)"
proof (induction f)
  case 0
  show ?case by simp
next
  case (Suc f)
  then have V: "\<And>s v r. parse_value f s = Some (v, r) \<Longrightarrow> length r < length s"
    and E: "\<And>s vs r. parse_elements f s = Some (vs, r) \<Longrightarrow> length r < length s"
    and M: "\<And>s ps r. parse_member f s = Some (ps, r) \<Longrightarrow> length r < length s"
    and R: "\<And>s ps r. parse_members_rest f s = Some (ps, r) \<Longrightarrow> length r < length s"
    by blast+
  show ?case
  proof (intro conjI allI impI)
    show "length r < length s" if "parse_value (Suc f) s = Some (v, r)" for s v r
      using V E M that by (rule rest_value)
    show "length r < length s" if "parse_elements (Suc f) s = Some (vs, r)" for s vs r
      using V E that by (rule rest_elements)
    show "length r < length s" if "parse_member (Suc f) s = Some (ps, r)" for s ps r
      using V R that by (rule rest_member)
    show "length r < length s" if "parse_members_rest (Suc f) s = Some (ps, r)" for s ps r
      using M that by (rule rest_members_rest)
  qed
qed

lemma parse_value_rest_shorter: "parse_value f s = Some (v, r) \<Longrightarrow> length r < length s"
  using parse_rest_shorter by blast

section \<open>Fuel above the length is never exhausted\<close>

lemma case_parse_value_fuel:
  assumes "parse_value g t = parse_value f t"
    and "\<And>v r. parse_value f t = Some (v, r) \<Longrightarrow> F v r = G v r"
  shows "(case parse_value g t of None \<Rightarrow> None | Some (v, r) \<Rightarrow> F v r) =
         (case parse_value f t of None \<Rightarrow> None | Some (v, r) \<Rightarrow> G v r)"
  using assms by (cases "parse_value f t") auto

lemma fuel_value:
  assumes V: "\<And>t. length t < f \<Longrightarrow> parse_value g t = parse_value f t"
    and E: "\<And>t. length t < f \<Longrightarrow> parse_elements g t = parse_elements f t"
    and M: "\<And>t. length t < f \<Longrightarrow> parse_member g t = parse_member f t"
    and l: "length s \<le> f"
  shows "parse_value (Suc g) s = parse_value (Suc f) s"
proof (cases "skip_ws s")
  case Nil
  then show ?thesis by simp
next
  case (Cons c cs)
  have lc: "length cs < f" using skip_ws_Cons_length [OF Cons] l by simp
  have arr: "(case parse_value g cs of None \<Rightarrow> None
               | Some (v, r) \<Rightarrow> map_option (apfst (\<lambda>vs. JArr (v # vs))) (parse_elements g r)) =
             (case parse_value f cs of None \<Rightarrow> None
               | Some (v, r) \<Rightarrow> map_option (apfst (\<lambda>vs. JArr (v # vs))) (parse_elements f r))"
    using lc by (intro case_parse_value_fuel V) (auto dest!: parse_value_rest_shorter simp: E)
  have obj: "parse_member g ds = parse_member f ds" if "skip_ws cs = d # ds" for d ds
    using skip_ws_Cons_length [OF that] lc by (intro M) simp
  show ?thesis
    unfolding parse_value.simps(2) Cons list.case arr
    by (cases "skip_ws cs") (simp_all add: obj)
qed

lemma fuel_elements:
  assumes V: "\<And>t. length t < f \<Longrightarrow> parse_value g t = parse_value f t"
    and E: "\<And>t. length t < f \<Longrightarrow> parse_elements g t = parse_elements f t"
    and l: "length s \<le> f"
  shows "parse_elements (Suc g) s = parse_elements (Suc f) s"
proof (cases "skip_ws s")
  case Nil
  then show ?thesis by simp
next
  case (Cons c cs)
  have lc: "length cs < f" using skip_ws_Cons_length [OF Cons] l by simp
  have "(case parse_value g cs of None \<Rightarrow> None
           | Some (v, r) \<Rightarrow> map_option (apfst ((#) v)) (parse_elements g r)) =
        (case parse_value f cs of None \<Rightarrow> None
           | Some (v, r) \<Rightarrow> map_option (apfst ((#) v)) (parse_elements f r))"
    using lc by (intro case_parse_value_fuel V) (auto dest!: parse_value_rest_shorter simp: E)
  then show ?thesis by (simp add: Cons)
qed

lemma fuel_member:
  assumes V: "\<And>t. length t < f \<Longrightarrow> parse_value g t = parse_value f t"
    and R: "\<And>t. length t < f \<Longrightarrow> parse_members_rest g t = parse_members_rest f t"
    and l: "length s \<le> f"
  shows "parse_member (Suc g) s = parse_member (Suc f) s"
proof (cases "parse_string s")
  case None
  then show ?thesis by simp
next
  case (Some p)
  obtain k r0 where p: "p = (k, r0)" by (cases p)
  have l0: "length r0 < length s" using parse_string_length Some p by blast
  show ?thesis
  proof (cases "skip_ws r0")
    case Nil
    with Some p show ?thesis by simp
  next
    case (Cons d ds)
    have lc: "length ds < f" using skip_ws_Cons_length [OF Cons] l0 l by simp
    have "(case parse_value g ds of None \<Rightarrow> None
             | Some (v, r') \<Rightarrow> map_option (apfst ((#) (k, v))) (parse_members_rest g r')) =
          (case parse_value f ds of None \<Rightarrow> None
             | Some (v, r') \<Rightarrow> map_option (apfst ((#) (k, v))) (parse_members_rest f r'))"
      using lc by (intro case_parse_value_fuel V) (auto dest!: parse_value_rest_shorter simp: R)
    with Some p Cons show ?thesis by simp
  qed
qed

lemma fuel_members_rest:
  assumes M: "\<And>t. length t < f \<Longrightarrow> parse_member g t = parse_member f t"
    and l: "length s \<le> f"
  shows "parse_members_rest (Suc g) s = parse_members_rest (Suc f) s"
proof (cases "skip_ws s")
  case Nil
  then show ?thesis by simp
next
  case (Cons c cs)
  have lc: "length cs < f" using skip_ws_Cons_length [OF Cons] l by simp
  have "parse_member g ds = parse_member f ds" if "skip_ws cs = d # ds" for d ds
    using skip_ws_Cons_length [OF that] lc by (intro M) simp
  with Cons show ?thesis by (simp split: list.split)
qed

lemma parse_fuel:
  "f \<le> g \<Longrightarrow>
   (\<forall>t. length t < f \<longrightarrow> parse_value g t = parse_value f t) \<and>
   (\<forall>t. length t < f \<longrightarrow> parse_elements g t = parse_elements f t) \<and>
   (\<forall>t. length t < f \<longrightarrow> parse_member g t = parse_member f t) \<and>
   (\<forall>t. length t < f \<longrightarrow> parse_members_rest g t = parse_members_rest f t)"
proof (induction f arbitrary: g)
  case 0
  show ?case by simp
next
  case (Suc f)
  then obtain g' where g: "g = Suc g'" and fg: "f \<le> g'" by (cases g) auto
  from Suc.IH [OF fg]
  have V: "\<And>t. length t < f \<Longrightarrow> parse_value g' t = parse_value f t"
    and E: "\<And>t. length t < f \<Longrightarrow> parse_elements g' t = parse_elements f t"
    and M: "\<And>t. length t < f \<Longrightarrow> parse_member g' t = parse_member f t"
    and R: "\<And>t. length t < f \<Longrightarrow> parse_members_rest g' t = parse_members_rest f t"
    by blast+
  show ?case
    unfolding g less_Suc_eq_le
    using fuel_value [OF V E M] fuel_elements [OF V E] fuel_member [OF V R] fuel_members_rest [OF M]
    by blast
qed

lemma parse_value_fuel:
  assumes "length s < f"
  shows "parse_value f s = parse_value (Suc (length s)) s"
proof (cases "f \<le> Suc (length s)")
  case True
  with assms have "f = Suc (length s)" by simp
  then show ?thesis by simp
next
  case False
  then show ?thesis using parse_fuel [of "Suc (length s)" f] by simp
qed

end
