(* ===== verification/Spec2Isabelle.thy ===== *)
theory Spec2Isabelle
  imports Client JsonFuel
begin

text \<open>
  \<^bold>\<open>A verified model of the cAdvisor client binding\<close> (\<^verbatim>\<open>src/cadvisor_client.py\<close>).

  \<^bold>\<open>The program.\<close> One Python module, 94 lines. Module level (lines 11--21):
  two oslo.config options, \<^verbatim>\<open>cAdvisor_port\<close> (default \<^verbatim>\<open>8080\<close>) and
  \<^verbatim>\<open>cAdvisor_version\<close> (default \<^verbatim>\<open>v1.3\<close>), registered on \<^verbatim>\<open>CONF\<close>; an
  exception class \<^verbatim>\<open>CadvisorAPIFailedException\<close> (24--25). The sub-clients
  (28--69): \<^verbatim>\<open>_BaseClient.request(container_id)\<close> formats the class's path template
  with the id, if one is given, and calls \<^verbatim>\<open>self.client.request(path)\<close>;
  \<^verbatim>\<open>MachineAPIClient\<close> (\<^verbatim>\<open>/machine\<close>), \<^verbatim>\<open>ContainerSpecAPIClient\<close>
  (\<^verbatim>\<open>/spec/%(container_id)s\<close>) and \<^verbatim>\<open>ContainerStatsAPIClient\<close>
  (\<^verbatim>\<open>/stats/%(container_id)s\<close>) add the accessors. The facade
  \<^verbatim>\<open>CadvisorClient\<close> (72--91) formats \<^verbatim>\<open>host:port/version\<close> once, holds one
  sub-client of each class, and its \<^verbatim>\<open>request(path)\<close> prefixes the endpoint and
  calls \<^verbatim>\<open>_http_request\<close>, which does one \<^verbatim>\<open>requests.get\<close>, raises on a status
  whose hundreds digit is not 2, and returns \<^verbatim>\<open>resp.json()\<close>. Control flows
  caller \<open>\<rightarrow>\<close> facade attribute \<open>\<rightarrow>\<close> accessor \<open>\<rightarrow>\<close> \<^verbatim>\<open>_BaseClient.request\<close>
  \<open>\<rightarrow>\<close> \<^verbatim>\<open>CadvisorClient.request\<close> \<open>\<rightarrow>\<close> \<^verbatim>\<open>_http_request\<close> \<open>\<rightarrow>\<close> network.

  \<^bold>\<open>The theories.\<close>
  \<^item> \<open>Prelude\<close>: the exceptions as one datatype \<open>py_error\<close> (a raise is an
    \<open>Inl\<close>), \<open>py_bind\<close> for statement sequencing, \<open>prefix_result\<close>, shared sum lemmas.
  \<^item> \<open>FormatKey\<close> and \<open>PyFormat\<close>: Python's \<open>str % dict\<close>, used by the source at
    lines 41, 75 and 85, as CPython's one-pass formatter restricted to literal text,
    \<open>%%\<close> and \<open>%(key)s\<close> (\<open>py_format\<close>, with \<open>scan_key\<close> for balanced keys), the
    operator on a non-string left operand (\<open>py_mod\<close>) and \<^verbatim>\<open>raise\<close>
    (\<open>py_raise\<close>), with the formatter computed on literal text and on one
    \<open>%(key)s\<close> directive.
  \<^item> \<open>Transport\<close>: \<open>http_request\<close> is \<^verbatim>\<open>_http_request\<close>; the network \<open>net\<close>
    logs every URL requested (\<open>sent\<close>) and answers through \<open>respond\<close>, a function
    of the history and the URL, with a reply, a connection failure, or nothing
    (\<open>NoAnswer\<close>). The code sets no timeout, so against a server that never
    answers \<^verbatim>\<open>requests.get\<close> never returns: a request's value is an option, and
    \<open>None\<close> is a call that does not return (\<open>http_result\<close>, lines 83--87). The
    body decoder is a parameter (\<^verbatim>\<open>resp.json()\<close>); \<open>http_contract\<close> is the
    contract of spec section 4.3.
  \<^item> \<open>SubClients\<close>: the classes as the datatype \<open>api_client\<close>, \<open>base_url\<close>,
    \<open>request_path\<close> and \<open>base_request\<close> (\<^verbatim>\<open>_BaseClient.request\<close>), the four
    accessors, all over an abstract \<open>('s, 'r) client_request\<close>: the interface the
    facade instantiates. \<open>spec_path\<close> is the table of spec sections 4.2 and 6.
  \<^item> \<open>Client\<close>: the options (\<open>OPTS_defaults\<close>), the module's life as the inductive
    \<open>module_reachable\<close> (import, then configuration loads) with the defaults
    \<^verbatim>\<open>__init__\<close> captured at import, the facade record and \<open>CadvisorClient\<close>,
    \<open>client_request\<close>, calls on the facade's attributes with Python's method lookup
    (\<open>run_call\<close>), sequences of calls whose exceptions the caller handles
    (\<open>run_calls\<close>) and scripts that stop at the first exception
    (\<open>run_script\<close>); a call that never returns blocks either.
  \<^item> \<open>Json\<close>: the decoder \<^verbatim>\<open>resp.json()\<close> calls (\<open>json_loads\<close>, after the
    scanner of CPython's \<^verbatim>\<open>json.decoder\<close>: \<open>parse_value\<close> and its three
    mutual companions, with fuel, and \<open>json_decode\<close>, which also rejects trailing
    data) and the printer a server uses (\<open>json_dumps\<close>, \<^verbatim>\<open>json.dumps\<close> with its
    default separators and \<^verbatim>\<open>ensure_ascii\<close>), over the datatype \<open>json\<close>; it
    instantiates the decoder parameter of \<open>Transport\<close>, and proves the round trip
    printer-then-decoder.
  \<^item> \<open>JsonFuel\<close>: why the decoder's fuel is no restriction of the model: every
    scanner step consumes input, so fuel above the length of the text is never
    exhausted and more fuel gives the same answer (\<open>parse_fuel\<close>).
  \<^item> \<open>Spec2Isabelle\<close> (this theory): the properties across components, and
    \<open>accessor_error\<close>, the exceptions a caller of an accessor can see.

  \<^bold>\<open>What is proved.\<close> Every accessor of a constructed facade makes exactly one GET,
  to the endpoint followed by its path (C1); the transport's outcome on every branch
  (C2, C4, C5), its success only on a 2xx reply (C11), the accepted status range
  (C10) and the exact set of answers on which it meets the spec's contract (C3);
  the defaults of the constructor are those of import time, whatever configuration
  is loaded later (C6); the paths of the sub-clients, against the spec's table (C7,
  C8), and that building them never raises (C14); the endpoint of the facade (C9);
  for call sequences, that they return exactly when the server answers each of
  their requests (C19), the order of the URLs requested (C12), the absence of
  \<open>AttributeError\<close> (C13), and, for a caller without a handler, that the script
  stops at the first exception: the calls before it returned values, the failing
  call's exception and state are the script's, and no later call reaches the
  network (C18). The JSON decoder reads back whatever the printer writes and
  rejects extra data (C15), and with it an accessor returns exactly the value the
  server printed (C16). An accessor raises only a connection error, the
  \<open>TypeError\<close> of line 85 and the decoding error (C17); an empty or blank body is
  a decoding error (C21). Against the spec's client (\<open>spec_call\<close>: the spec's path
  table and the contract of section 4.3), every call but a stats call without an
  id behaves the same exactly when the server's answer is not a non-2xx reply
  (C20).

  \<^bold>\<open>Findings.\<close> Line 85 applies \<open>%\<close> to the exception object, so a non-2xx answer
  raises \<open>TypeError\<close> and the reason phrase is lost (C2, C3); the intended statement
  (\<open>api_failure_intended\<close>) raises the typed failure with the reason. Hence
  \<^verbatim>\<open>CadvisorAPIFailedException\<close>, the one exception the module declares, is
  never raised (C17). \<^verbatim>\<open>get_all_stats\<close>, and \<^verbatim>\<open>get_container_stats(None)\<close>
  as well, request the unformatted \<^verbatim>\<open>/stats/%(container_id)s\<close>, not
  \<^verbatim>\<open>/stats/\<close> as the spec's table says (C7, C20); these two and the non-2xx
  replies are the only places where the program departs from its spec (C20).
  The constructor's defaults are read when the module is imported, not when the
  facade is constructed as the spec says, so a port or version loaded from a
  configuration file is ignored (C6).

  \<^bold>\<open>Bounds and fuel.\<close> Every recursion but one is structural or decreases the
  length of the template (\<open>py_format\<close>, whose termination rests on
  \<open>scan_key_length\<close>). Statuses are unbounded \<open>int\<close>, as Python's are; \<open>//\<close> is
  \<open>div\<close>, which rounds down as Python does. The JSON decoder recurses on the
  nesting of the text and takes fuel, an artefact of the model (CPython's scanner
  recurses without a counter); \<open>json_loads\<close> gives it one unit more than the
  length of the text. That is enough for every text: each call of the scanner
  leaves a strictly shorter rest (\<open>parse_rest_shorter\<close>), so any larger fuel gives
  the same answer (\<open>parse_fuel\<close>), and the round trip decodes every printed
  value with it (\<open>size_json_dumps\<close>).

  \<^bold>\<open>Not modelled.\<close> The requests library beyond one logged GET and its outcome
  (a server that never answers is modelled; the time a call takes is not):
  redirects, URL quoting, the guessing of the body's encoding. Every exception
  \<^verbatim>\<open>requests.get\<close> raises is one \<open>ConnectionError\<close> of the model
  (\<open>NetworkFailure\<close>): the library's \<^verbatim>\<open>InvalidSchema\<close>,
  \<^verbatim>\<open>MissingSchema\<close>, \<^verbatim>\<open>InvalidURL\<close> and \<^verbatim>\<open>TooManyRedirects\<close>, which
  a malformed host or a redirect loop raise before or without a connection, are
  folded into it, and the URL is logged in \<open>sent\<close> on every outcome; the
  properties that name the exceptions a caller sees (C17) read
  \<open>ConnectionError\<close> as any of these. CPython's recursion limit: the
  \<^verbatim>\<open>json\<close> scanner raises \<^verbatim>\<open>RecursionError\<close> on a body nested some
  thousand levels deep, where the model decodes it. In JSON: numbers with
  a fraction or an exponent, which Python converts to a binary64 \<^verbatim>\<open>float\<close> by
  correct rounding, a conversion the permitted libraries offer no model of (an
  exact decimal would identify and distinguish numbers differently from Python), so
  the decoder answers \<open>None\<close> on them where Python accepts, as it does on
  \<^verbatim>\<open>NaN\<close>, \<^verbatim>\<open>Infinity\<close> and Unicode escapes above 255 (HOL characters are
  bytes); the message of a decoding error, which names the position of the fault;
  the building of a dict from an object's members (the last of duplicate keys
  wins). oslo.config's parsing of files and command lines, reduced to a new value of
  the options; the logger (line 9, created and never used); the entry point (lines
  94--95, which does nothing). Formatting directives other than \<open>%%\<close> and
  \<open>%(key)s\<close> are \<open>Unmodelled\<close>, and no template of the source holds one. The
  program has no loop, retry or wait: its only liveness question is whether a call
  returns, which is answered exactly by whether the server answers (C19).

  \<^bold>\<open>Plan.\<close> Modelled, in this order: the transport and its error paths, the
  sub-clients' paths, the facade and its configuration, call sequences, the JSON
  decoder and its termination, scripts that stop at the first exception, a server
  that never answers and the calls it blocks, the comparison of the whole facade
  with the spec's client. What remains outside the model is library behaviour
  listed above (the decoder's messages and floats, oslo.config's parsing) and the
  two inert parts of the module, the unused logger and the empty entry point,
  which have no behaviour to state.
\<close>

section \<open>The exceptions a caller can see\<close>

text \<open>
  The exceptions that can leave an accessor of the facade, as the code stands: a
  connection failure of \<^verbatim>\<open>requests.get\<close>, the \<open>TypeError\<close> of line 85, and
  the decoding error of \<^verbatim>\<open>resp.json()\<close>.
\<close>

fun accessor_error :: "py_error \<Rightarrow> bool" where
  "accessor_error (ConnectionError msg) = True"
| "accessor_error (TypeError msg) = (TypeError msg = line85_error)"
| "accessor_error JSONDecodeError = True"
| "accessor_error e = False"

section \<open>The client the spec describes\<close>

text \<open>
  The spec's client (sections 4.2, 4.3 and 6): a call requests the endpoint
  followed by the path of the spec's table, and its outcome is the contract of
  section 4.3 applied to the server's answer, the URL logged as the code logs it.
\<close>

definition spec_call ::
  "'j decoder \<Rightarrow> cadvisor_client \<Rightarrow> call \<Rightarrow> net \<Rightarrow> ('j py_result \<times> net) option" where
  "spec_call dec c x n =
     (let u = endpoint c @ spec_path (call_class x) (call_arg x)
      in map_option (\<lambda>r. (r, n\<lparr>sent := sent n @ [u]\<rparr>)) (http_contract dec (respond n (sent n) u)))"

section \<open>End to end: the URL each accessor requests\<close>

text \<open>
  C1: on a facade built from a host, a port and a version, each accessor makes one
  HTTP request, to \<open>host:port/version\<close> followed by its path, and returns that
  request's outcome; the stats of all containers go to the unformatted template.
\<close>

theorem accessors_end_to_end:
  assumes "CadvisorClient u p v = Inr c"
  shows "run_call dec c GetMachineInfo n =
           http_request dec (u @ '':'' @ p @ ''/'' @ v @ ''/machine'') n \<and>
         run_call dec c (GetContainerSpec (Some cid)) n =
           http_request dec (u @ '':'' @ p @ ''/'' @ v @ ''/spec/'' @ cid) n \<and>
         run_call dec c (GetContainerStats (Some cid)) n =
           http_request dec (u @ '':'' @ p @ ''/'' @ v @ ''/stats/'' @ cid) n \<and>
         run_call dec c GetAllStats n =
           http_request dec (u @ '':'' @ p @ ''/'' @ v @ ''/stats/%(container_id)s'') n"
  using assms
  by (auto simp: CadvisorClient_eq run_call_def client_request_def request_defs base_request_def)

theorem accessors_end_to_end_witness:
  "run_call list_decoder demo_client (GetContainerStats (Some ''abc123'')) (reply_net 200 ''OK'' ''[]'') =
     http_request list_decoder ''http://h:8080/v1.3/stats/abc123'' (reply_net 200 ''OK'' ''[]'')"
  using accessors_end_to_end [of "''http://h''" "''8080''" "''v1.3''" demo_client list_decoder
      "reply_net 200 ''OK'' ''[]''" "''abc123''"]
  by (simp add: CadvisorClient_eq)

section \<open>Configuration: defaults fixed at import\<close>

text \<open>
  C6: in every state of the module (import, then any configuration loads), a facade
  built with the default port and version has the endpoint \<open>host:8080/v1.3\<close>: the
  configured options are never read by the constructor.
\<close>

theorem default_endpoint_ignores_config:
  assumes "module_reachable s" and "CadvisorClient_default s u = Inr c"
  shows "endpoint c = u @ '':8080/v1.3''"
  using module_reachable_defaults [OF assms(1)] assms(2)
  by (simp add: CadvisorClient_default_def CadvisorClient_Inr_endpoint)

theorem default_endpoint_ignores_config_witness:
  "module_reachable (import_module\<lparr>conf := \<lparr>cAdvisor_port = ''9090'', cAdvisor_version = ''v2.0''\<rparr>\<rparr>) \<and>
   cAdvisor_port (conf (import_module\<lparr>conf := \<lparr>cAdvisor_port = ''9090'', cAdvisor_version = ''v2.0''\<rparr>\<rparr>)) =
     ''9090'' \<and>
   CadvisorClient_default
     (import_module\<lparr>conf := \<lparr>cAdvisor_port = ''9090'', cAdvisor_version = ''v2.0''\<rparr>\<rparr>) ''http://h'' =
     Inr demo_client \<and>
   endpoint demo_client = ''http://h'' @ '':8080/v1.3''"
proof -
  let ?s = "import_module\<lparr>conf := \<lparr>cAdvisor_port = ''9090'', cAdvisor_version = ''v2.0''\<rparr>\<rparr>"
  have r: "module_reachable ?s"
    by (rule module_reachable.load_config [OF module_reachable.import])
  have d: "CadvisorClient_default ?s ''http://h'' = Inr demo_client"
    by (simp add: CadvisorClient_default_def CadvisorClient_eq import_module_def OPTS_defaults_def)
  show ?thesis
    using default_endpoint_ignores_config [OF r d] r d by simp
qed

section \<open>The decoder behind the transport\<close>

text \<open>
  C15: \<^verbatim>\<open>resp.json()\<close> with the decoder of the \<^verbatim>\<open>json\<close> module reads back
  every value a server prints with \<^verbatim>\<open>json.dumps\<close>, followed by any text
  that cannot continue a number: it returns the value when that text is
  whitespace, and raises the decoding error on extra data. (The model has no
  recursion limit; CPython raises \<^verbatim>\<open>RecursionError\<close> on a value nested beyond
  its own.)
\<close>

theorem resp_json_printed:
  assumes "content resp = json_dumps j @ r" and "ok_rest r"
  shows "resp_json json_loads resp =
           (if skip_ws r = [] then Inr j else Inl JSONDecodeError)"
  using parse_value_dumps_length [OF assms(2), of j]
  by (simp only: resp_json_def json_loads_def json_decode_def assms(1)) simp

theorem resp_json_printed_witness:
  "resp_json json_loads \<lparr>status_code = 200, reason = ''OK'',
       content = json_dumps (JArr [JNum 1, JStr ''a'']) @ '' x''\<rparr> =
     Inl JSONDecodeError \<and>
   resp_json json_loads \<lparr>status_code = 200, reason = ''OK'',
       content = json_dumps (JArr [JNum 1, JStr ''a'']) @ ''\<newline>''\<rparr> =
     Inr (JArr [JNum 1, JStr ''a''])"
proof -
  have r: "ok_rest '' x''" "ok_rest ''\<newline>''" by (simp_all add: ok_rest_def is_digit_def)
  show ?thesis
    using resp_json_printed [OF _ r(1), of "\<lparr>status_code = 200, reason = ''OK'',
        content = json_dumps (JArr [JNum 1, JStr ''a'']) @ '' x''\<rparr>" "JArr [JNum 1, JStr ''a'']"]
      resp_json_printed [OF _ r(2), of "\<lparr>status_code = 200, reason = ''OK'',
        content = json_dumps (JArr [JNum 1, JStr ''a'']) @ ''\<newline>''\<rparr>" "JArr [JNum 1, JStr ''a'']"]
    by (simp add: is_ws_def)
qed

text \<open>
  C16: end to end, with the decoder of the \<^verbatim>\<open>json\<close> module: when the server
  answers the URL of a call with a 2xx reply whose body is the printed form of a
  JSON value, the accessor returns that value, and the URL is logged once.
\<close>

theorem call_returns_served_value:
  assumes "CadvisorClient u p v = Inr c"
    and "request_path (call_class x) (call_arg x) = Inr q"
    and "respond n (sent n) (endpoint c @ q) = Reply resp"
    and "200 \<le> status_code resp" and "status_code resp \<le> 299"
    and "content resp = json_dumps j"
  shows "run_call json_loads c x n = Some (Inr j, n\<lparr>sent := sent n @ [endpoint c @ q]\<rparr>)"
proof -
  have "json_loads (json_dumps j) = Some j"
    using parse_value_dumps_length [OF ok_rest_Nil, of j]
    by (simp only: json_loads_def json_decode_def append_Nil2) simp
  then show ?thesis
    using run_call_http [OF assms(1,2), of json_loads n] assms(3-6)
    by (simp add: http_defs status_ok_2xx resp_json_def)
qed

theorem call_returns_served_value_witness:
  "run_call json_loads demo_client GetMachineInfo
     (reply_net 200 ''OK'' (json_dumps (JObj [(''num_cores'', JNum 4)]))) =
   Some (Inr (JObj [(''num_cores'', JNum 4)]),
    (reply_net 200 ''OK'' (json_dumps (JObj [(''num_cores'', JNum 4)])))
      \<lparr>sent := [''http://h:8080/v1.3/machine'']\<rparr>)"
  using call_returns_served_value
    [of "''http://h''" "''8080''" "''v1.3''" demo_client GetMachineInfo "''/machine''"
        "reply_net 200 ''OK'' (json_dumps (JObj [(''num_cores'', JNum 4)]))"
        "\<lparr>status_code = 200, reason = ''OK'', content = json_dumps (JObj [(''num_cores'', JNum 4)])\<rparr>"
        "JObj [(''num_cores'', JNum 4)]"]
  by (simp add: CadvisorClient_eq)

section \<open>The exceptions of an accessor\<close>

text \<open>
  C17: an accessor of a constructed facade raises only a connection error, the
  \<open>TypeError\<close> of line 85, or the decoding error, whatever the server and the
  decoder: \<open>CadvisorAPIFailedException\<close>, the exception the module declares for
  API failures, is never raised, and neither is a formatting or attribute error.
\<close>

theorem accessor_exceptions:
  assumes "CadvisorClient u p v = Inr c" and "run_call dec c x n = Some (Inl e, n')"
  shows "accessor_error e"
proof -
  obtain q where q: "request_path (call_class x) (call_arg x) = Inr q"
    using call_path_Inr by blast
  show ?thesis
    using assms(2) run_call_http [OF assms(1) q, of dec n]
    by (auto simp: http_defs api_failure_TypeError resp_json_def
        split: http_outcome.splits if_splits option.splits)
qed

theorem accessor_exceptions_witness:
  "map_option fst (run_call list_decoder demo_client GetMachineInfo (reply_net 500 ''Server Error'' '''')) =
     Some (Inl line85_error) \<and>
   accessor_error line85_error"
proof -
  have r: "run_call list_decoder demo_client GetMachineInfo (reply_net 500 ''Server Error'' '''') =
     Some (Inl line85_error, (reply_net 500 ''Server Error'' '''')\<lparr>sent := [''http://h:8080/v1.3/machine'']\<rparr>)"
    by (simp add: run_call_def client_request_def request_defs base_request_def http_defs
        status_ok_def api_failure_TypeError)
  show ?thesis
    using accessor_exceptions [of "''http://h''" "''8080''" "''v1.3''" demo_client list_decoder
        GetMachineInfo "reply_net 500 ''Server Error'' ''''" line85_error
        "(reply_net 500 ''Server Error'' '''')\<lparr>sent := [''http://h:8080/v1.3/machine'']\<rparr>"] r
    by (simp add: CadvisorClient_eq)
qed

section \<open>The facade against the spec's client\<close>

text \<open>
  C20: every call on a constructed facade, except a stats call without a container
  id (\<^verbatim>\<open>get_all_stats()\<close> and \<^verbatim>\<open>get_container_stats(None)\<close>), behaves as
  the spec's client does (the same URL, the same log, the same value, exception or
  blocking) exactly when the server's answer is not a reply with a status outside
  [200, 299]; on such a reply the code raises \<open>TypeError\<close> where the spec raises
  the typed failure. With C7, which shows that a stats call without an id requests
  another URL than the spec's, this locates every divergence of the program from
  its spec.
\<close>

theorem run_call_refines_spec:
  assumes "CadvisorClient u p v = Inr c"
    and "\<not> (call_class x = ContainerStatsAPIClient \<and> call_arg x = None)"
  shows "run_call dec c x n = spec_call dec c x n \<longleftrightarrow>
    (\<forall>resp. respond n (sent n) (call_url c x) = Reply resp \<longrightarrow>
       200 \<le> status_code resp \<and> status_code resp \<le> 299)"
proof -
  have path: "projr (request_path (call_class x) (call_arg x)) = spec_path (call_class x) (call_arg x)"
  proof (cases x)
    case (GetContainerSpec cid)
    then show ?thesis by (cases cid) simp_all
  next
    case (GetContainerStats cid)
    then show ?thesis using assms(2) by (cases cid) simp_all
  qed (use assms(2) in simp_all)
  have "spec_call dec c x n =
      map_option (\<lambda>r. (r, n\<lparr>sent := sent n @ [call_url c x]\<rparr>)) (http_contract dec (respond n (sent n) (call_url c x)))"
    by (simp add: spec_call_def path Let_def)
  then show ?thesis
    by (cases "respond n (sent n) (call_url c x)")
       (auto simp: run_call_url [OF assms(1)] http_defs http_contract_def status_ok_def
          api_failure_TypeError)
qed

theorem run_call_refines_spec_witness:
  "run_call list_decoder demo_client GetMachineInfo (reply_net 200 ''OK'' ''[]'') =
     spec_call list_decoder demo_client GetMachineInfo (reply_net 200 ''OK'' ''[]'') \<and>
   run_call list_decoder demo_client (GetContainerStats (Some ''abc123'')) (reply_net 404 ''Not Found'' '''') \<noteq>
     spec_call list_decoder demo_client (GetContainerStats (Some ''abc123'')) (reply_net 404 ''Not Found'' '''')"
proof -
  have cc: "CadvisorClient ''http://h'' ''8080'' ''v1.3'' = Inr demo_client"
    by (simp add: CadvisorClient_eq)
  show ?thesis
    using run_call_refines_spec [OF cc, of GetMachineInfo list_decoder "reply_net 200 ''OK'' ''[]''"]
      run_call_refines_spec [OF cc, of "GetContainerStats (Some ''abc123'')" list_decoder
        "reply_net 404 ''Not Found'' ''''"]
    by simp
qed

section \<open>An empty body\<close>

text \<open>
  C21: a body that is empty or holds only whitespace is not JSON:
  \<^verbatim>\<open>resp.json()\<close> raises the decoding error, whatever the status it came with.
\<close>

theorem resp_json_blank_body:
  assumes "\<forall>ch \<in> set (content resp). is_ws ch"
  shows "resp_json json_loads resp = Inl JSONDecodeError"
proof -
  have "\<forall>ch \<in> set s. is_ws ch \<Longrightarrow> skip_ws s = []" for s by (induction s) auto
  with assms have "skip_ws (content resp) = []" by blast
  then show ?thesis by (simp add: resp_json_def json_loads_def json_decode_def)
qed

theorem resp_json_blank_body_witness:
  "resp_json json_loads \<lparr>status_code = 200, reason = ''OK'', content = '' \<newline> ''\<rparr> = Inl JSONDecodeError"
  using resp_json_blank_body [of "\<lparr>status_code = 200, reason = ''OK'', content = '' \<newline> ''\<rparr>"]
  by (simp add: is_ws_def)

end
